theory Spec2Isabelle
  imports Main "HOL-Library.Word"
begin

unbundle bit_operations_syntax

section \<open>HEVC sequence parameter set decoding (hevc/sps.go)\<close>

text \<open>
  Go's machine integers are kept at their widths: \<open>byte\<close> is an 8-bit word,
  \<open>uint16\<close> and \<open>uint32\<close> are 16- and 32-bit words, and \<open>uint\<close> (what the bit
  reader returns) is a 64-bit word. Conversions such as \<open>byte(x)\<close> and
  \<open>uint32(x)\<close> truncate and are written \<open>ucast\<close>.
\<close>

type_synonym byte = "8 word"
type_synonym uint16 = "16 word"
type_synonym uint32 = "32 word"
type_synonym uint = "64 word"

subsection \<open>Errors\<close>

text \<open>
  The Go code builds its errors with \<open>fmt.Errorf\<close>; the constructors carry the
  names the specification gives to them:
  \<^item> \<open>WrongUnitType\<close>: "NALU type is %s not SPS" (line 145);
  \<^item> \<open>Malformed\<close>: "deltaIdx > idx in parseShortTermRPS" (line 371), and an
    Exp-Golomb code with too many leading zero bits;
  \<^item> \<open>TooManyReferencePictures\<close>: "more than %d short term reference pictures"
    (line 392);
  \<^item> \<open>UnknownAspectRatioIDC\<close>: "GetSARFromIDC: %w" (line 271);
  \<^item> \<open>Truncated\<close>: the bit reader ran past the end of its bytes.
\<close>

datatype error =
    Truncated
  | Malformed
  | TooManyReferencePictures
  | WrongUnitType
  | UnknownAspectRatioIDC

text \<open>A run-time panic of the Go program (an index outside a slice).\<close>

datatype panic = IndexOutOfRange

subsection \<open>Data model (lines 11-131 and 340-352)\<close>

record ProfileTierLevel =
  GeneralProfileSpace :: byte
  GeneralTierFlag :: bool
  GeneralProfileIDC :: byte
  GeneralProfileCompatibilityFlags :: uint32
  GeneralConstraintIndicatorFlags :: uint
  GeneralProgressiveSourceFlag :: bool
  GeneralInterlacedSourceFlag :: bool
  GeneralNonPackedConstraintFlag :: bool
  GeneralFrameOnlyConstraintFlag :: bool
  GeneralLevelIDC :: byte

record ConformanceWindow =
  LeftOffset :: uint32
  RightOffset :: uint32
  TopOffset :: uint32
  BottomOffset :: uint32

record SubLayerOrderingInfo =
  MaxDecPicBufferingMinus1 :: byte
  MaxNumReorderPics :: byte
  MaxLatencyIncreasePlus1 :: byte

record BitstreamRestrictions =
  TilesFixedStructureFlag :: bool
  MVOverPicBoundariesFlag :: bool
  RestrictedRefsPicsListsFlag :: bool
  MinSpatialSegmentationIDC :: uint
  MaxBytesPerPicDenom :: uint
  MaxBitsPerMinCuDenom :: uint
  Log2MaxMvLengthHorizontal :: uint
  Log2MaxMvLengthVertical :: uint

record VUIParameters =
  SampleAspectRatioWidth :: uint
  SampleAspectRatioHeight :: uint
  OverscanInfoPresentFlag :: bool
  OverscanAppropriateFlag :: bool
  VideoSignalTypePresentFlag :: bool
  VideoFormat :: byte
  VideoFullRangeFlag :: bool
  ColourDescriptionFlag :: bool
  ColourPrimaries :: byte
  TransferCharacteristics :: byte
  MatrixCoefficients :: byte
  ChromaLocInfoPresentFlag :: bool
  ChromaSampleLocTypeTopField :: uint
  ChromaSampleLocTypeBottomField :: uint
  NeutralChromaIndicationFlag :: bool
  FieldSeqFlag :: bool
  FrameFieldInfoPresentFlag :: bool
  DefaultDisplayWindowFlag :: bool
  DefDispWinLeftOffset :: uint
  DefDispWinRightOffset :: uint
  DefDispWinTopOffset :: uint
  DefDispWinBottomOffset :: uint
  TimingInfoPresentFlag :: bool
  NumUnitsInTick :: uint
  TimeScale :: uint
  PocProportionalToTimingFlag :: bool
  NumTicksPocDiffOneMinus1 :: uint
  HrdParametersPresentFlag :: bool
  BitstreamRestrictionFlag :: bool
  BitstreamResctrictions :: "BitstreamRestrictions option"

text \<open>A Go slice that is \<open>nil\<close> or made with length 0 is the empty list.\<close>

record ShortTermRPS =
  DeltaPocS0 :: "uint32 list"
  DeltaPocS1 :: "uint32 list"
  UsedByCurrPicS0 :: "bool list"
  UsedByCurrPicS1 :: "bool list"
  NumNegativePics :: byte
  NumPositivePics :: byte
  NumDeltaPocs :: byte

record SPS =
  VpsID :: byte
  MaxSubLayersMinus1 :: byte
  TemporalIDNestingFlag :: bool
  ProfileTierLevel :: ProfileTierLevel
  SpsID :: byte
  ChromaFormatIDC :: byte
  SeparateColourPlaneFlag :: bool
  ConformanceWindowFlag :: bool
  PicWidthInLumaSamples :: uint32
  PicHeightInLumaSamples :: uint32
  ConformanceWindow :: ConformanceWindow
  BitDepthLumaMinus8 :: byte
  BitDepthChromaMinus8 :: byte
  Log2MaxPicOrderCntLsbMinus4 :: byte
  SubLayerOrderingInfoPresentFlag :: bool
  SubLayeringOrderingInfos :: "SubLayerOrderingInfo list"
  Log2MinLumaCodingBlockSizeMinus3 :: byte
  Log2DiffMaxMinLumaCodingBlockSize :: byte
  Log2MinLumaTransformBlockSizeMinus2 :: byte
  Log2DiffMaxMinLumaTransformBlockSize :: byte
  MaxTransformHierarchyDepthInter :: byte
  MaxTransformHierarchyDepthIntra :: byte
  ScalingListEnabledFlag :: bool
  ScalingListDataPresentFlag :: bool
  AmpEnabledFlag :: bool
  SampleAdaptiveOffsetEnabledFlag :: bool
  PCMEnabledFlag :: bool
  PcmSampleBitDepthLumaMinus1 :: byte
  PcmSampleBitDepthChromaMinus1 :: byte
  Log2MinPcmLumaCodingBlockSize :: uint16
  Log2DiffMaxMinPcmLumaCodingBlockSize :: uint16
  PcmLoopFilterDisabledFlag :: bool
  NumShortTermRefPicSets :: byte
  ShortTermRefPicSets :: "ShortTermRPS list"
  LongTermRefPicsPresentFlag :: bool
  SpsTemporalMvpEnabledFlag :: bool
  StrongIntraSmoothingEnabledFlag :: bool
  VUIParametersPresentFlag :: bool
  VUI :: "VUIParameters option"

definition maxSTRefPics :: byte where
  "maxSTRefPics = 16"

subsection \<open>Derived geometry (lines 242-255)\<close>

text \<open>
  \<open>ImageSize\<close> computes in \<open>uint32\<close>: the sum, the product and the subtraction all
  wrap modulo \<open>2 ^ 32\<close>, and nothing is checked.
\<close>

definition ImageSize :: "SPS \<Rightarrow> uint32 \<times> uint32" where
  "ImageSize s =
     (let encWidth = PicWidthInLumaSamples s;
          encHeight = PicHeightInLumaSamples s;
          (subWidthC, subHeightC) =
            (if ChromaFormatIDC s = 1 then (2, 2)
             else if ChromaFormatIDC s = 2 then (2, 1)
             else (1, 1));
          width = encWidth
            - (LeftOffset (ConformanceWindow s) + RightOffset (ConformanceWindow s)) * subWidthC;
          height = encHeight
            - (TopOffset (ConformanceWindow s) + BottomOffset (ConformanceWindow s)) * subHeightC
      in (width, height))"

subsection \<open>Bit cursor (package bits, AccErrEBSPReader)\<close>

text \<open>
  Modelled from the spec: the reader type \<open>bits.AccErrEBSPReader\<close> and its methods
  \<open>Read\<close>, \<open>ReadFlag\<close>, \<open>ReadExpGolomb\<close>, \<open>AccError\<close> and \<open>SetError\<close> live in
  another package of the repository. Section 4.1 of the specification gives their
  contract: a byte buffer, a bit offset and an optional latched error; bits are read
  most significant first; the first error is kept, and every read after it returns 0
  and leaves the cursor alone. The bytes are taken as already free of
  emulation-prevention bytes (section 6).
\<close>

record AccErrEBSPReader =
  buffer :: "byte list"
  bitOffset :: nat
  status :: "error option"

text \<open>Modelled from the spec: a fresh cursor at bit 0 with no error latched.\<close>

definition NewAccErrEBSPReader :: "byte list \<Rightarrow> AccErrEBSPReader" where
  "NewAccErrEBSPReader data = \<lparr>buffer = data, bitOffset = 0, status = None\<rparr>"

text \<open>
  Modelled from the spec: bit \<open>i\<close> of the buffer, counting from the most significant
  bit of byte 0.
\<close>

definition getBit :: "byte list \<Rightarrow> nat \<Rightarrow> bool" where
  "getBit bs i = bit (bs ! (i div 8)) (7 - i mod 8)"

text \<open>
  Modelled from the spec: the \<open>n\<close> bits from offset \<open>p\<close> on, as an unsigned number,
  first bit highest (in a Go \<open>uint\<close>).
\<close>

primrec bitsValue :: "byte list \<Rightarrow> nat \<Rightarrow> nat \<Rightarrow> uint" where
  "bitsValue bs p 0 = 0"
| "bitsValue bs p (Suc n) = 2 * bitsValue bs p n + (if getBit bs (p + n) then 1 else 0)"

text \<open>
  Modelled from the spec: \<open>readBits(n)\<close>. A latched cursor returns 0; fewer than
  \<open>n\<close> bits left latches \<open>Truncated\<close> and returns 0.
\<close>

definition Read :: "AccErrEBSPReader \<Rightarrow> nat \<Rightarrow> AccErrEBSPReader \<times> uint" where
  "Read r n =
     (if status r \<noteq> None then (r, 0)
      else if 8 * length (buffer r) < bitOffset r + n
        then (r\<lparr>status := Some Truncated\<rparr>, 0)
      else (r\<lparr>bitOffset := bitOffset r + n\<rparr>, bitsValue (buffer r) (bitOffset r) n))"

text \<open>Modelled from the spec: \<open>readFlag()\<close> is \<open>readBits(1) != 0\<close>.\<close>

definition ReadFlag :: "AccErrEBSPReader \<Rightarrow> AccErrEBSPReader \<times> bool" where
  "ReadFlag r = (let (r, v) = Read r 1 in (r, v \<noteq> 0))"

text \<open>
  Modelled from the spec: the bound on the leading zero bits of an Exp-Golomb code
  ("exceeds a sane bound (e.g., 32)").
\<close>

definition maxLeadingZeroBits :: nat where
  "maxLeadingZeroBits = 32"

text \<open>
  Modelled from the spec: counting the leading zero bits up to the terminating 1 bit,
  one \<open>readBits(1)\<close> at a time. The count stops with
  \<open>Truncated\<close> when the bits run out and with \<open>Malformed\<close> once it exceeds the bound.
\<close>

function countLeadingZeroBits :: "AccErrEBSPReader \<Rightarrow> nat \<Rightarrow> AccErrEBSPReader \<times> nat" where
  "countLeadingZeroBits r leadingZeroBits =
     (let (r', b) = Read r 1 in
        if status r' \<noteq> None then (r', leadingZeroBits)
        else if b = 1 then (r', leadingZeroBits)
        else if maxLeadingZeroBits < leadingZeroBits + 1
          then (r'\<lparr>status := Some Malformed\<rparr>, leadingZeroBits + 1)
        else countLeadingZeroBits r' (leadingZeroBits + 1))"
  by pat_completeness auto
termination
  by (relation "measure (\<lambda>(r, leadingZeroBits). maxLeadingZeroBits - leadingZeroBits)") auto

declare countLeadingZeroBits.simps [simp del]

text \<open>
  Modelled from the spec: \<open>readExpGolomb()\<close> returns
  \<open>(1 << leadingZeroBits) - 1 + suffix\<close>, and 0 on any failure.
\<close>

definition ReadExpGolomb :: "AccErrEBSPReader \<Rightarrow> AccErrEBSPReader \<times> uint" where
  "ReadExpGolomb r =
     (if status r \<noteq> None then (r, 0)
      else
        let (r, leadingZeroBits) = countLeadingZeroBits r 0 in
        if status r \<noteq> None then (r, 0)
        else
          let (r, suffix) = Read r leadingZeroBits in
          if status r \<noteq> None then (r, 0)
          else (r, push_bit leadingZeroBits 1 - 1 + suffix))"

text \<open>Modelled from the spec: \<open>status()\<close>, the latched error.\<close>

definition AccError :: "AccErrEBSPReader \<Rightarrow> error option" where
  "AccError r = status r"

text \<open>
  Modelled from the spec: \<open>SetError\<close> latches an error of the caller. Errors are
  latched once (sections 4.1 and 7): an error already latched is kept.
\<close>

definition SetError :: "AccErrEBSPReader \<Rightarrow> error \<Rightarrow> AccErrEBSPReader" where
  "SetError r e = (if status r = None then r\<lparr>status := Some e\<rparr> else r)"

subsection \<open>Collaborators outside the file\<close>

text \<open>
  Modelled from the spec: \<open>GetNaluType\<close> and \<open>NALU_SPS\<close> (the unit-type lookup
  and the SPS tag of package hevc) and \<open>avc.ExtendedSAR\<close> and
  \<open>avc.GetSARfromIDC\<close> (the aspect-ratio sentinel and table of package avc) are
  declared elsewhere; section 6 of the specification treats them as external
  collaborators. They are parameters of the decoder. \<open>GetSARfromIDC\<close> returns
  width, height and whether it failed.
\<close>

record 'nt externals =
  GetNaluType :: "byte \<Rightarrow> 'nt"
  NALU_SPS :: 'nt
  ExtendedSAR :: uint
  GetSARfromIDC :: "uint \<Rightarrow> uint \<times> uint \<times> bool"

subsection \<open>Zero values\<close>

definition emptyRPS :: ShortTermRPS where
  "emptyRPS = \<lparr>DeltaPocS0 = [], DeltaPocS1 = [], UsedByCurrPicS0 = [], UsedByCurrPicS1 = [],
     NumNegativePics = 0, NumPositivePics = 0, NumDeltaPocs = 0\<rparr>"

definition emptyBitstreamRestrictions :: BitstreamRestrictions where
  "emptyBitstreamRestrictions = \<lparr>TilesFixedStructureFlag = False,
     MVOverPicBoundariesFlag = False, RestrictedRefsPicsListsFlag = False,
     MinSpatialSegmentationIDC = 0, MaxBytesPerPicDenom = 0, MaxBitsPerMinCuDenom = 0,
     Log2MaxMvLengthHorizontal = 0, Log2MaxMvLengthVertical = 0\<rparr>"

definition emptyVUI :: VUIParameters where
  "emptyVUI = \<lparr>SampleAspectRatioWidth = 0, SampleAspectRatioHeight = 0,
     OverscanInfoPresentFlag = False, OverscanAppropriateFlag = False,
     VideoSignalTypePresentFlag = False, VideoFormat = 0, VideoFullRangeFlag = False,
     ColourDescriptionFlag = False, ColourPrimaries = 0, TransferCharacteristics = 0,
     MatrixCoefficients = 0, ChromaLocInfoPresentFlag = False,
     ChromaSampleLocTypeTopField = 0, ChromaSampleLocTypeBottomField = 0,
     NeutralChromaIndicationFlag = False, FieldSeqFlag = False,
     FrameFieldInfoPresentFlag = False, DefaultDisplayWindowFlag = False,
     DefDispWinLeftOffset = 0, DefDispWinRightOffset = 0, DefDispWinTopOffset = 0,
     DefDispWinBottomOffset = 0, TimingInfoPresentFlag = False, NumUnitsInTick = 0,
     TimeScale = 0, PocProportionalToTimingFlag = False, NumTicksPocDiffOneMinus1 = 0,
     HrdParametersPresentFlag = False, BitstreamRestrictionFlag = False,
     BitstreamResctrictions = None\<rparr>"

definition emptyProfileTierLevel :: ProfileTierLevel where
  "emptyProfileTierLevel = \<lparr>GeneralProfileSpace = 0, GeneralTierFlag = False,
     GeneralProfileIDC = 0, GeneralProfileCompatibilityFlags = 0,
     GeneralConstraintIndicatorFlags = 0, GeneralProgressiveSourceFlag = False,
     GeneralInterlacedSourceFlag = False, GeneralNonPackedConstraintFlag = False,
     GeneralFrameOnlyConstraintFlag = False, GeneralLevelIDC = 0\<rparr>"

definition emptySPS :: SPS where
  "emptySPS = \<lparr>VpsID = 0, MaxSubLayersMinus1 = 0, TemporalIDNestingFlag = False,
     ProfileTierLevel = emptyProfileTierLevel, SpsID = 0, ChromaFormatIDC = 0,
     SeparateColourPlaneFlag = False, ConformanceWindowFlag = False,
     PicWidthInLumaSamples = 0, PicHeightInLumaSamples = 0,
     ConformanceWindow = \<lparr>LeftOffset = 0, RightOffset = 0, TopOffset = 0, BottomOffset = 0\<rparr>,
     BitDepthLumaMinus8 = 0, BitDepthChromaMinus8 = 0, Log2MaxPicOrderCntLsbMinus4 = 0,
     SubLayerOrderingInfoPresentFlag = False, SubLayeringOrderingInfos = [],
     Log2MinLumaCodingBlockSizeMinus3 = 0, Log2DiffMaxMinLumaCodingBlockSize = 0,
     Log2MinLumaTransformBlockSizeMinus2 = 0, Log2DiffMaxMinLumaTransformBlockSize = 0,
     MaxTransformHierarchyDepthInter = 0, MaxTransformHierarchyDepthIntra = 0,
     ScalingListEnabledFlag = False, ScalingListDataPresentFlag = False,
     AmpEnabledFlag = False, SampleAdaptiveOffsetEnabledFlag = False,
     PCMEnabledFlag = False, PcmSampleBitDepthLumaMinus1 = 0,
     PcmSampleBitDepthChromaMinus1 = 0, Log2MinPcmLumaCodingBlockSize = 0,
     Log2DiffMaxMinPcmLumaCodingBlockSize = 0, PcmLoopFilterDisabledFlag = False,
     NumShortTermRefPicSets = 0, ShortTermRefPicSets = [],
     LongTermRefPicsPresentFlag = False, SpsTemporalMvpEnabledFlag = False,
     StrongIntraSmoothingEnabledFlag = False, VUIParametersPresentFlag = False,
     VUI = None\<rparr>"

subsection \<open>Short-term reference picture sets (lines 354-411)\<close>

text \<open>Lines 359-363: the inter-RPS-prediction flag is read only when \<open>idx > 0\<close>.\<close>

definition readInterRPSPredFlag :: "AccErrEBSPReader \<Rightarrow> byte \<Rightarrow> AccErrEBSPReader \<times> bool" where
  "readInterRPSPredFlag r idx = (if 0 < idx then ReadFlag r else (r, False))"

text \<open>
  Lines 365-369: \<open>deltaIdx\<close> is 1, or \<open>byte(r.ReadExpGolomb() + 1)\<close> in the
  slice-header case \<open>idx == numSTRefPicSets\<close>.
\<close>

definition readDeltaIdx :: "AccErrEBSPReader \<Rightarrow> byte \<Rightarrow> byte \<Rightarrow> AccErrEBSPReader \<times> byte" where
  "readDeltaIdx r idx numSTRefPicSets =
     (if idx = numSTRefPicSets
      then (let (r, v) = ReadExpGolomb r in (r, ucast (v + 1)))
      else (r, 1))"

text \<open>
  Lines 378-387. The counter \<open>j\<close> is a byte below \<open>numDeltaPocs\<close>, so \<open>j++\<close> does
  not wrap.
\<close>

function interRPSLoop ::
  "AccErrEBSPReader \<Rightarrow> byte \<Rightarrow> byte \<Rightarrow> ShortTermRPS \<Rightarrow> AccErrEBSPReader \<times> ShortTermRPS" where
  "interRPSLoop r j numDeltaPocs stps =
     (if j < numDeltaPocs then
        let (r, usedByCurrPicFlag) = ReadFlag r;
            (r, useDeltaFlag) = (if \<not> usedByCurrPicFlag then ReadFlag r else (r, False));
            stps = (if usedByCurrPicFlag \<or> useDeltaFlag
                    then stps\<lparr>NumDeltaPocs := NumDeltaPocs stps + 1\<rparr> else stps)
        in interRPSLoop r (j + 1) numDeltaPocs stps
      else (r, stps))"
  by pat_completeness auto
termination
  by (relation "measure (\<lambda>(r, j, numDeltaPocs, stps). unat numDeltaPocs - unat j)")
     (auto, unat_arith)

declare interRPSLoop.simps [simp del]

text \<open>
  Lines 398-401 and 404-407: the two loops that fill a delta-POC slice and its
  used-flag slice, both made with \<open>n\<close> elements before the loop, so that the index
  \<open>i < n\<close> is always inside them.
\<close>

function readDeltaPocs ::
  "AccErrEBSPReader \<Rightarrow> byte \<Rightarrow> byte \<Rightarrow> uint32 list \<Rightarrow> bool list
     \<Rightarrow> AccErrEBSPReader \<times> uint32 list \<times> bool list" where
  "readDeltaPocs r i n deltaPoc usedByCurrPic =
     (if i < n then
        let (r, v) = ReadExpGolomb r;
            deltaPoc = deltaPoc[unat i := ucast (v + 1)];
            (r, f) = ReadFlag r;
            usedByCurrPic = usedByCurrPic[unat i := f]
        in readDeltaPocs r (i + 1) n deltaPoc usedByCurrPic
      else (r, deltaPoc, usedByCurrPic))"
  by pat_completeness auto
termination
  by (relation "measure (\<lambda>(r, i, n, deltaPoc, usedByCurrPic). unat n - unat i)")
     (auto, unat_arith)

declare readDeltaPocs.simps [simp del]

text \<open>Lines 389-408: the explicit branch.\<close>

definition parseExplicitRPS :: "AccErrEBSPReader \<Rightarrow> ShortTermRPS \<Rightarrow> AccErrEBSPReader \<times> ShortTermRPS" where
  "parseExplicitRPS r stps =
     (let (r, v) = ReadExpGolomb r;
          stps = stps\<lparr>NumNegativePics := ucast v\<rparr>;
          (r, v) = ReadExpGolomb r;
          stps = stps\<lparr>NumPositivePics := ucast v\<rparr>
      in
        if maxSTRefPics < NumNegativePics stps \<or> maxSTRefPics < NumPositivePics stps
        then (SetError r TooManyReferencePictures, stps)
        else
          let stps = stps\<lparr>NumDeltaPocs := NumNegativePics stps + NumPositivePics stps\<rparr>;
              stps = stps\<lparr>DeltaPocS0 := replicate (unat (NumNegativePics stps)) 0\<rparr>;
              stps = stps\<lparr>UsedByCurrPicS0 := replicate (unat (NumNegativePics stps)) False\<rparr>;
              (r, deltaPoc, usedByCurrPic) =
                readDeltaPocs r 0 (NumNegativePics stps) (DeltaPocS0 stps) (UsedByCurrPicS0 stps);
              stps = stps\<lparr>DeltaPocS0 := deltaPoc, UsedByCurrPicS0 := usedByCurrPic\<rparr>;
              stps = stps\<lparr>DeltaPocS1 := replicate (unat (NumPositivePics stps)) 0\<rparr>;
              stps = stps\<lparr>UsedByCurrPicS1 := replicate (unat (NumPositivePics stps)) False\<rparr>;
              (r, deltaPoc, usedByCurrPic) =
                readDeltaPocs r 0 (NumPositivePics stps) (DeltaPocS1 stps) (UsedByCurrPicS1 stps);
              stps = stps\<lparr>DeltaPocS1 := deltaPoc, UsedByCurrPicS1 := usedByCurrPic\<rparr>
          in (r, stps))"

text \<open>
  Lines 364-387: the inter-prediction branch. After \<open>SetError\<close> at line 371 the
  function goes on: \<open>refIdx := idx - deltaIdx\<close> wraps as a byte, and
  \<open>sps.ShortTermRefPicSets[refIdx]\<close> panics when \<open>refIdx\<close> is not an index of the
  slice.
\<close>

definition parseInterRPS ::
  "AccErrEBSPReader \<Rightarrow> byte \<Rightarrow> byte \<Rightarrow> SPS \<Rightarrow> ShortTermRPS
     \<Rightarrow> panic + (AccErrEBSPReader \<times> ShortTermRPS)" where
  "parseInterRPS r idx numSTRefPicSets sps stps =
     (let (r, deltaIdx) = readDeltaIdx r idx numSTRefPicSets;
          r = (if idx < deltaIdx then SetError r Malformed else r);
          (r, deltaRpsSign) = Read r 1;
          (r, absDeltaRpsMinus1) = ReadExpGolomb r;
          refIdx = idx - deltaIdx
      in
        if length (ShortTermRefPicSets sps) \<le> unat refIdx then Inl IndexOutOfRange
        else
          let numDeltaPocs = NumDeltaPocs (ShortTermRefPicSets sps ! unat refIdx)
          in Inr (interRPSLoop r 0 numDeltaPocs stps))"

definition parseShortTermRPS ::
  "AccErrEBSPReader \<Rightarrow> byte \<Rightarrow> byte \<Rightarrow> SPS \<Rightarrow> panic + (AccErrEBSPReader \<times> ShortTermRPS)" where
  "parseShortTermRPS r idx numSTRefPicSets sps =
     (let stps = emptyRPS;
          (r, interRPSPredFlag) = readInterRPSPredFlag r idx
      in
        if interRPSPredFlag then parseInterRPS r idx numSTRefPicSets sps stps
        else Inr (parseExplicitRPS r stps))"

subsection \<open>Scaling list skip (lines 413-442)\<close>

text \<open>
  The counters are Go \<open>int\<close>s that stay between 0 and 64; they are natural numbers
  here. Lines 434-438 read \<open>coefNum\<close> Exp-Golomb values and drop them.
\<close>

function skipDeltaCoefs :: "AccErrEBSPReader \<Rightarrow> nat \<Rightarrow> nat \<Rightarrow> AccErrEBSPReader" where
  "skipDeltaCoefs r i coefNum =
     (if i < coefNum then
        let (r, scaling_list_delta_coef) = ReadExpGolomb r
        in skipDeltaCoefs r (i + 1) coefNum
      else r)"
  by pat_completeness auto
termination
  by (relation "measure (\<lambda>(r, i, coefNum). coefNum - i)") auto

declare skipDeltaCoefs.simps [simp del]

text \<open>
  Lines 421-439, one (sizeId, matrixId) pair. Line 431 is
  \<open>_ = r.ReadExpGolomb\<close>: the method is named, not called, so for \<open>sizeId > 1\<close>
  nothing is read and the cursor is the one it was.
\<close>

definition skipScalingList :: "AccErrEBSPReader \<Rightarrow> nat \<Rightarrow> AccErrEBSPReader" where
  "skipScalingList r sizeId =
     (let (r, flag) = ReadFlag r in
        if \<not> flag then
          (let (r, scaling_list_pred_matrix_id_delta) = ReadExpGolomb r in r)
        else
          let coefNum = push_bit (4 + push_bit 1 sizeId) (1::nat);
              coefNum = (if 64 < coefNum then 64 else coefNum);
              r = (if 1 < sizeId then r else r)
          in skipDeltaCoefs r 0 coefNum)"

function skipMatrices :: "AccErrEBSPReader \<Rightarrow> nat \<Rightarrow> nat \<Rightarrow> nat \<Rightarrow> AccErrEBSPReader" where
  "skipMatrices r sizeId matrixId nrMatrixIds =
     (if matrixId < nrMatrixIds
      then skipMatrices (skipScalingList r sizeId) sizeId (matrixId + 1) nrMatrixIds
      else r)"
  by pat_completeness auto
termination
  by (relation "measure (\<lambda>(r, sizeId, matrixId, nrMatrixIds). nrMatrixIds - matrixId)") auto

declare skipMatrices.simps [simp del]

function skipSizes :: "AccErrEBSPReader \<Rightarrow> nat \<Rightarrow> AccErrEBSPReader" where
  "skipSizes r sizeId =
     (if sizeId < 4 then
        let nrMatrixIds = (if sizeId = 3 then 2 else 6)
        in skipSizes (skipMatrices r sizeId 0 nrMatrixIds) (sizeId + 1)
      else r)"
  by pat_completeness auto
termination
  by (relation "measure (\<lambda>(r, sizeId). 4 - sizeId)") auto

declare skipSizes.simps [simp del]

definition readPastScalingListData :: "AccErrEBSPReader \<Rightarrow> AccErrEBSPReader" where
  "readPastScalingListData r = skipSizes r 0"

subsection \<open>VUI parameters (lines 257-338)\<close>

definition parseBitstreamRestrictions ::
  "AccErrEBSPReader \<Rightarrow> AccErrEBSPReader \<times> BitstreamRestrictions" where
  "parseBitstreamRestrictions r =
     (let br = emptyBitstreamRestrictions;
          (r, f) = ReadFlag r; br = br\<lparr>TilesFixedStructureFlag := f\<rparr>;
          (r, f) = ReadFlag r; br = br\<lparr>MVOverPicBoundariesFlag := f\<rparr>;
          (r, f) = ReadFlag r; br = br\<lparr>RestrictedRefsPicsListsFlag := f\<rparr>;
          (r, v) = ReadExpGolomb r; br = br\<lparr>MinSpatialSegmentationIDC := v\<rparr>;
          (r, v) = ReadExpGolomb r; br = br\<lparr>MaxBytesPerPicDenom := v\<rparr>;
          (r, v) = ReadExpGolomb r; br = br\<lparr>MaxBitsPerMinCuDenom := v\<rparr>;
          (r, v) = ReadExpGolomb r; br = br\<lparr>Log2MaxMvLengthHorizontal := v\<rparr>;
          (r, v) = ReadExpGolomb r; br = br\<lparr>Log2MaxMvLengthVertical := v\<rparr>
      in (r, br))"

text \<open>Lines 261-274: the aspect ratio.\<close>

definition parseAspectRatio ::
  "'nt externals \<Rightarrow> AccErrEBSPReader \<Rightarrow> VUIParameters \<Rightarrow> AccErrEBSPReader \<times> VUIParameters" where
  "parseAspectRatio ext r vui =
     (let (r, aspectRatioInfoPresentFlag) = ReadFlag r in
        if aspectRatioInfoPresentFlag then
          let (r, aspectRatioIDC) = Read r 8 in
            if aspectRatioIDC = ExtendedSAR ext then
              let (r, v) = Read r 16; vui = vui\<lparr>SampleAspectRatioWidth := v\<rparr>;
                  (r, v) = Read r 16; vui = vui\<lparr>SampleAspectRatioHeight := v\<rparr>
              in (r, vui)
            else
              let (w, h, failed) = GetSARfromIDC ext aspectRatioIDC;
                  vui = vui\<lparr>SampleAspectRatioWidth := w, SampleAspectRatioHeight := h\<rparr>
              in (if failed then SetError r UnknownAspectRatioIDC else r, vui)
        else (r, vui))"

text \<open>Lines 275-304: overscan, video signal type, chroma location, display window.\<close>

definition parseVUIFlags :: "AccErrEBSPReader \<Rightarrow> VUIParameters \<Rightarrow> AccErrEBSPReader \<times> VUIParameters" where
  "parseVUIFlags r vui =
     (let (r, f) = ReadFlag r; vui = vui\<lparr>OverscanInfoPresentFlag := f\<rparr>;
          (r, vui) = (if OverscanInfoPresentFlag vui
            then (let (r, f) = ReadFlag r in (r, vui\<lparr>OverscanAppropriateFlag := f\<rparr>))
            else (r, vui));
          (r, f) = ReadFlag r; vui = vui\<lparr>VideoSignalTypePresentFlag := f\<rparr>;
          (r, vui) = (if VideoSignalTypePresentFlag vui then
            (let (r, v) = Read r 3; vui = vui\<lparr>VideoFormat := ucast v\<rparr>;
                 (r, f) = ReadFlag r; vui = vui\<lparr>VideoFullRangeFlag := f\<rparr>;
                 (r, f) = ReadFlag r; vui = vui\<lparr>ColourDescriptionFlag := f\<rparr>
             in if ColourDescriptionFlag vui then
                  (let (r, v) = Read r 8; vui = vui\<lparr>ColourPrimaries := ucast v\<rparr>;
                       (r, v) = Read r 8; vui = vui\<lparr>TransferCharacteristics := ucast v\<rparr>;
                       (r, v) = Read r 8; vui = vui\<lparr>MatrixCoefficients := ucast v\<rparr>
                   in (r, vui))
                else (r, vui))
            else (r, vui));
          (r, f) = ReadFlag r; vui = vui\<lparr>ChromaLocInfoPresentFlag := f\<rparr>;
          (r, vui) = (if ChromaLocInfoPresentFlag vui then
            (let (r, v) = ReadExpGolomb r; vui = vui\<lparr>ChromaSampleLocTypeTopField := v\<rparr>;
                 (r, v) = ReadExpGolomb r; vui = vui\<lparr>ChromaSampleLocTypeBottomField := v\<rparr>
             in (r, vui))
            else (r, vui));
          (r, f) = ReadFlag r; vui = vui\<lparr>NeutralChromaIndicationFlag := f\<rparr>;
          (r, f) = ReadFlag r; vui = vui\<lparr>FieldSeqFlag := f\<rparr>;
          (r, f) = ReadFlag r; vui = vui\<lparr>FrameFieldInfoPresentFlag := f\<rparr>;
          (r, f) = ReadFlag r; vui = vui\<lparr>DefaultDisplayWindowFlag := f\<rparr>;
          (r, vui) = (if DefaultDisplayWindowFlag vui then
            (let (r, v) = ReadExpGolomb r; vui = vui\<lparr>DefDispWinLeftOffset := v\<rparr>;
                 (r, v) = ReadExpGolomb r; vui = vui\<lparr>DefDispWinRightOffset := v\<rparr>;
                 (r, v) = ReadExpGolomb r; vui = vui\<lparr>DefDispWinTopOffset := v\<rparr>;
                 (r, v) = ReadExpGolomb r; vui = vui\<lparr>DefDispWinBottomOffset := v\<rparr>
             in (r, vui))
            else (r, vui))
      in (r, vui))"

text \<open>
  Lines 305-318: timing info. The third component tells whether the function
  returns at line 316 (HRD parameters present).
\<close>

definition parseVUITiming ::
  "AccErrEBSPReader \<Rightarrow> VUIParameters \<Rightarrow> AccErrEBSPReader \<times> VUIParameters \<times> bool" where
  "parseVUITiming r vui =
     (let (r, f) = ReadFlag r; vui = vui\<lparr>TimingInfoPresentFlag := f\<rparr> in
        if TimingInfoPresentFlag vui then
          let (r, v) = Read r 32; vui = vui\<lparr>NumUnitsInTick := v\<rparr>;
              (r, v) = Read r 32; vui = vui\<lparr>TimeScale := v\<rparr>;
              (r, f) = ReadFlag r; vui = vui\<lparr>PocProportionalToTimingFlag := f\<rparr>;
              (r, vui) = (if PocProportionalToTimingFlag vui
                then (let (r, v) = ReadExpGolomb r in (r, vui\<lparr>NumTicksPocDiffOneMinus1 := v\<rparr>))
                else (r, vui));
              (r, f) = ReadFlag r; vui = vui\<lparr>HrdParametersPresentFlag := f\<rparr>
          in if HrdParametersPresentFlag vui then (r, vui, True) else (r, vui, False)
        else (r, vui, False))"

text \<open>Lines 319-324: the bitstream restrictions.\<close>

definition parseVUIRestrictions ::
  "AccErrEBSPReader \<Rightarrow> VUIParameters \<Rightarrow> AccErrEBSPReader \<times> VUIParameters" where
  "parseVUIRestrictions r vui =
     (let (r, f) = ReadFlag r; vui = vui\<lparr>BitstreamRestrictionFlag := f\<rparr> in
        if BitstreamRestrictionFlag vui
        then (let (r, br) = parseBitstreamRestrictions r
              in (r, vui\<lparr>BitstreamResctrictions := Some br\<rparr>))
        else (r, vui))"

definition parseVUI :: "'nt externals \<Rightarrow> AccErrEBSPReader \<Rightarrow> AccErrEBSPReader \<times> VUIParameters" where
  "parseVUI ext r =
     (let vui = emptyVUI;
          (r, vui) = parseAspectRatio ext r vui;
          (r, vui) = parseVUIFlags r vui;
          (r, vui, returned) = parseVUITiming r vui
      in if returned then (r, vui) else parseVUIRestrictions r vui)"

subsection \<open>The SPS decoder (lines 133-240)\<close>

text \<open>Lines 147-155: VPS id, sub-layer count, nesting flag, profile, tier and level.\<close>

definition parseProfileTierLevel :: "AccErrEBSPReader \<Rightarrow> SPS \<Rightarrow> AccErrEBSPReader \<times> SPS" where
  "parseProfileTierLevel r sps =
     (let (r, v) = Read r 4; sps = sps\<lparr>VpsID := ucast v\<rparr>;
          (r, v) = Read r 3; sps = sps\<lparr>MaxSubLayersMinus1 := ucast v\<rparr>;
          (r, f) = ReadFlag r; sps = sps\<lparr>TemporalIDNestingFlag := f\<rparr>;
          (r, v) = Read r 2;
          sps = sps\<lparr>ProfileTierLevel := (ProfileTierLevel sps)\<lparr>GeneralProfileSpace := ucast v\<rparr>\<rparr>;
          (r, f) = ReadFlag r;
          sps = sps\<lparr>ProfileTierLevel := (ProfileTierLevel sps)\<lparr>GeneralTierFlag := f\<rparr>\<rparr>;
          (r, v) = Read r 5;
          sps = sps\<lparr>ProfileTierLevel := (ProfileTierLevel sps)\<lparr>GeneralProfileIDC := ucast v\<rparr>\<rparr>;
          (r, v) = Read r 32;
          sps = sps\<lparr>ProfileTierLevel :=
            (ProfileTierLevel sps)\<lparr>GeneralProfileCompatibilityFlags := ucast v\<rparr>\<rparr>;
          (r, v) = Read r 48;
          sps = sps\<lparr>ProfileTierLevel :=
            (ProfileTierLevel sps)\<lparr>GeneralConstraintIndicatorFlags := v\<rparr>\<rparr>;
          (r, v) = Read r 8;
          sps = sps\<lparr>ProfileTierLevel := (ProfileTierLevel sps)\<lparr>GeneralLevelIDC := ucast v\<rparr>\<rparr>
      in (r, sps))"

text \<open>
  Lines 183-191. \<open>MaxSubLayersMinus1\<close> comes from a 3-bit read, so the byte counter
  \<open>i\<close> stays below 9 and does not wrap; the counters are natural numbers here.
\<close>

function subLayerOrderingLoop ::
  "AccErrEBSPReader \<Rightarrow> nat \<Rightarrow> nat \<Rightarrow> SubLayerOrderingInfo list
     \<Rightarrow> AccErrEBSPReader \<times> SubLayerOrderingInfo list" where
  "subLayerOrderingLoop r i maxSubLayersMinus1 infos =
     (if i \<le> maxSubLayersMinus1 then
        let (r, a) = ReadExpGolomb r;
            (r, b) = ReadExpGolomb r;
            (r, c) = ReadExpGolomb r
        in subLayerOrderingLoop r (i + 1) maxSubLayersMinus1
             (infos @ [\<lparr>MaxDecPicBufferingMinus1 = ucast a, MaxNumReorderPics = ucast b,
                        MaxLatencyIncreasePlus1 = ucast c\<rparr>])
      else (r, infos))"
  by pat_completeness auto
termination
  by (relation "measure (\<lambda>(r, i, maxSubLayersMinus1, infos). Suc maxSubLayersMinus1 - i)") auto

declare subLayerOrderingLoop.simps [simp del]

text \<open>Lines 159-215: everything between the profile and the reference picture sets.\<close>

definition parseSPSFields :: "AccErrEBSPReader \<Rightarrow> SPS \<Rightarrow> AccErrEBSPReader \<times> SPS" where
  "parseSPSFields r sps =
     (let (r, v) = ReadExpGolomb r; sps = sps\<lparr>SpsID := ucast v\<rparr>;
          (r, v) = ReadExpGolomb r; sps = sps\<lparr>ChromaFormatIDC := ucast v\<rparr>;
          (r, sps) = (if ChromaFormatIDC sps = 3
            then (let (r, f) = ReadFlag r in (r, sps\<lparr>SeparateColourPlaneFlag := f\<rparr>))
            else (r, sps));
          (r, v) = ReadExpGolomb r; sps = sps\<lparr>PicWidthInLumaSamples := ucast v\<rparr>;
          (r, v) = ReadExpGolomb r; sps = sps\<lparr>PicHeightInLumaSamples := ucast v\<rparr>;
          (r, f) = ReadFlag r; sps = sps\<lparr>ConformanceWindowFlag := f\<rparr>;
          (r, sps) = (if ConformanceWindowFlag sps then
            (let (r, left) = ReadExpGolomb r;
                 (r, right) = ReadExpGolomb r;
                 (r, top) = ReadExpGolomb r;
                 (r, bottom) = ReadExpGolomb r
             in (r, sps\<lparr>ConformanceWindow :=
                   \<lparr>LeftOffset = ucast left, RightOffset = ucast right,
                    TopOffset = ucast top, BottomOffset = ucast bottom\<rparr>\<rparr>))
            else (r, sps));
          (r, v) = ReadExpGolomb r; sps = sps\<lparr>BitDepthLumaMinus8 := ucast v\<rparr>;
          (r, v) = ReadExpGolomb r; sps = sps\<lparr>BitDepthChromaMinus8 := ucast v\<rparr>;
          (r, v) = ReadExpGolomb r; sps = sps\<lparr>Log2MaxPicOrderCntLsbMinus4 := ucast v\<rparr>;
          (r, f) = ReadFlag r; sps = sps\<lparr>SubLayerOrderingInfoPresentFlag := f\<rparr>;
          startValue = (if SubLayerOrderingInfoPresentFlag sps then 0 else MaxSubLayersMinus1 sps);
          (r, infos) = subLayerOrderingLoop r (unat startValue) (unat (MaxSubLayersMinus1 sps))
                         (SubLayeringOrderingInfos sps);
          sps = sps\<lparr>SubLayeringOrderingInfos := infos\<rparr>;
          (r, v) = ReadExpGolomb r; sps = sps\<lparr>Log2MinLumaCodingBlockSizeMinus3 := ucast v\<rparr>;
          (r, v) = ReadExpGolomb r; sps = sps\<lparr>Log2DiffMaxMinLumaCodingBlockSize := ucast v\<rparr>;
          (r, v) = ReadExpGolomb r; sps = sps\<lparr>Log2MinLumaTransformBlockSizeMinus2 := ucast v\<rparr>;
          (r, v) = ReadExpGolomb r; sps = sps\<lparr>Log2DiffMaxMinLumaTransformBlockSize := ucast v\<rparr>;
          (r, v) = ReadExpGolomb r; sps = sps\<lparr>MaxTransformHierarchyDepthInter := ucast v\<rparr>;
          (r, v) = ReadExpGolomb r; sps = sps\<lparr>MaxTransformHierarchyDepthIntra := ucast v\<rparr>;
          (r, f) = ReadFlag r; sps = sps\<lparr>ScalingListEnabledFlag := f\<rparr>;
          (r, sps) = (if ScalingListEnabledFlag sps then
            (let (r, f) = ReadFlag r; sps = sps\<lparr>ScalingListDataPresentFlag := f\<rparr>
             in (if ScalingListDataPresentFlag sps then readPastScalingListData r else r, sps))
            else (r, sps));
          (r, f) = ReadFlag r; sps = sps\<lparr>AmpEnabledFlag := f\<rparr>;
          (r, f) = ReadFlag r; sps = sps\<lparr>SampleAdaptiveOffsetEnabledFlag := f\<rparr>;
          (r, f) = ReadFlag r; sps = sps\<lparr>PCMEnabledFlag := f\<rparr>;
          (r, sps) = (if PCMEnabledFlag sps then
            (let (r, v) = Read r 4; sps = sps\<lparr>PcmSampleBitDepthLumaMinus1 := ucast v\<rparr>;
                 (r, v) = Read r 4; sps = sps\<lparr>PcmSampleBitDepthChromaMinus1 := ucast v\<rparr>;
                 (r, v) = ReadExpGolomb r; sps = sps\<lparr>Log2MinPcmLumaCodingBlockSize := ucast v\<rparr>;
                 (r, v) = ReadExpGolomb r;
                 sps = sps\<lparr>Log2DiffMaxMinPcmLumaCodingBlockSize := ucast v\<rparr>;
                 (r, f) = ReadFlag r; sps = sps\<lparr>PcmLoopFilterDisabledFlag := f\<rparr>
             in (r, sps))
            else (r, sps));
          (r, v) = ReadExpGolomb r; sps = sps\<lparr>NumShortTermRefPicSets := ucast v\<rparr>
      in (r, sps))"

text \<open>
  Lines 216-221: the loop over the short-term reference picture sets. The third
  component tells whether the loop left the function at line 219. \<open>idx\<close> is a byte
  below \<open>NumShortTermRefPicSets\<close>, so \<open>idx++\<close> does not wrap.
\<close>

function shortTermRPSLoop ::
  "AccErrEBSPReader \<Rightarrow> byte \<Rightarrow> SPS \<Rightarrow> panic + (AccErrEBSPReader \<times> SPS \<times> bool)" where
  "shortTermRPSLoop r idx sps =
     (if idx < NumShortTermRefPicSets sps then
        (case parseShortTermRPS r idx (NumShortTermRefPicSets sps) sps of
           Inl p \<Rightarrow> Inl p
         | Inr (r, stps) \<Rightarrow>
             let sps = sps\<lparr>ShortTermRefPicSets := ShortTermRefPicSets sps @ [stps]\<rparr> in
               if AccError r \<noteq> None then Inr (r, sps, True)
               else shortTermRPSLoop r (idx + 1) sps)
      else Inr (r, sps, False))"
  by pat_completeness auto
termination
  by (relation "measure (\<lambda>(r, idx, sps). unat (NumShortTermRefPicSets sps) - unat idx)")
     (auto, unat_arith)

declare shortTermRPSLoop.simps [simp del]

text \<open>Lines 227-230: the long-term reference pictures are read and dropped.\<close>

function skipLongTermRefPics :: "AccErrEBSPReader \<Rightarrow> uint \<Rightarrow> uint \<Rightarrow> nat \<Rightarrow> AccErrEBSPReader" where
  "skipLongTermRefPics r i numLongTermRefPics n =
     (if i < numLongTermRefPics then
        let (r, ltRefPicPocLsbSps) = Read r n;
            (r, usedByCurrPicLtSps) = ReadFlag r
        in skipLongTermRefPics r (i + 1) numLongTermRefPics n
      else r)"
  by pat_completeness auto
termination
  by (relation "measure (\<lambda>(r, i, numLongTermRefPics, n). unat numLongTermRefPics - unat i)")
     (auto, unat_arith)

declare skipLongTermRefPics.simps [simp del]

text \<open>Lines 223-237: long-term pictures, two flags and the VUI.\<close>

definition parseSPSTail :: "'nt externals \<Rightarrow> AccErrEBSPReader \<Rightarrow> SPS \<Rightarrow> AccErrEBSPReader \<times> SPS" where
  "parseSPSTail ext r sps =
     (let (r, f) = ReadFlag r; sps = sps\<lparr>LongTermRefPicsPresentFlag := f\<rparr>;
          r = (if LongTermRefPicsPresentFlag sps then
                 (let (r, numLongTermRefPics) = ReadExpGolomb r
                  in skipLongTermRefPics r 0 numLongTermRefPics
                       (unat (Log2MaxPicOrderCntLsbMinus4 sps + 4)))
               else r);
          (r, f) = ReadFlag r; sps = sps\<lparr>SpsTemporalMvpEnabledFlag := f\<rparr>;
          (r, f) = ReadFlag r; sps = sps\<lparr>StrongIntraSmoothingEnabledFlag := f\<rparr>;
          (r, f) = ReadFlag r; sps = sps\<lparr>VUIParametersPresentFlag := f\<rparr>
      in
        if VUIParametersPresentFlag sps
        then (let (r, vui) = parseVUI ext r in (r, sps\<lparr>VUI := Some vui\<rparr>))
        else (r, sps))"

text \<open>
  \<open>ParseSPSNALUnit\<close> returns the record pointer (\<open>None\<close> for \<open>nil\<close>) and the error
  (\<open>None\<close> for \<open>nil\<close>), or panics.
\<close>

definition ParseSPSNALUnit :: "'nt externals \<Rightarrow> byte list \<Rightarrow> panic + (SPS option \<times> error option)" where
  "ParseSPSNALUnit ext data =
     (let sps = emptySPS;
          r = NewAccErrEBSPReader data;
          (r, naluHdrBits) = Read r 16;
          naluType = GetNaluType ext (ucast (drop_bit 8 naluHdrBits))
      in
        if naluType \<noteq> NALU_SPS ext then Inr (None, Some WrongUnitType)
        else
          let (r, sps) = parseProfileTierLevel r sps in
            if MaxSubLayersMinus1 sps \<noteq> 0 then Inr (Some sps, None)
            else
              let (r, sps) = parseSPSFields r sps in
                (case shortTermRPSLoop r 0 sps of
                   Inl p \<Rightarrow> Inl p
                 | Inr (r, sps, returned) \<Rightarrow>
                     if returned then Inr (Some sps, AccError r)
                     else (let (r, sps) = parseSPSTail ext r sps in Inr (Some sps, AccError r))))"

subsection \<open>Definitions used to state the properties\<close>

text \<open>
  Modelled from the spec: an instance of the collaborators, for the examples. The
  unit type is the six bits after the first bit of the first header byte
  (section 6); the SPS tag 33, the sentinel 255 and the table of sample aspect
  ratios are those of the HEVC standard.
\<close>

definition hevcExternals :: "byte externals" where
  "hevcExternals = \<lparr>GetNaluType = (\<lambda>header0. drop_bit 1 header0 AND 0x3f), NALU_SPS = 33,
     ExtendedSAR = 255,
     GetSARfromIDC = (\<lambda>index.
       if index < 1 \<or> 16 < index then (0, 0, True)
       else (let t = [(1, 1), (12, 11), (10, 11), (16, 11), (40, 33), (24, 11), (20, 11),
                      (32, 11), (80, 33), (18, 11), (15, 11), (64, 33), (160, 99), (4, 3),
                      (3, 2), (2, 1)] ! (unat index - 1)
             in (fst t, snd t, False)))\<rparr>"

text \<open>
  The scaling-list step as section 4.4 of the specification words it, to compare
  with \<open>skipScalingList\<close>: for size classes beyond index 1 a DC-coefficient-minus-8
  Exp-Golomb value is read and dropped before the delta coefficients.
\<close>

definition skipScalingListSpec :: "AccErrEBSPReader \<Rightarrow> nat \<Rightarrow> AccErrEBSPReader" where
  "skipScalingListSpec r sizeId =
     (let (r, flag) = ReadFlag r in
        if \<not> flag then fst (ReadExpGolomb r)
        else
          let r = (if 1 < sizeId then fst (ReadExpGolomb r) else r)
          in skipDeltaCoefs r 0 (min 64 (2 ^ (4 + 2 * sizeId))))"

text \<open>
  The raw Exp-Golomb values that the loop \<open>readDeltaPocs\<close> meets, one per
  iteration, each followed by its used-flag bit.
\<close>

function rawDeltaCodes :: "AccErrEBSPReader \<Rightarrow> byte \<Rightarrow> byte \<Rightarrow> uint list" where
  "rawDeltaCodes r i n =
     (if i < n then
        let (r, v) = ReadExpGolomb r;
            (r, f) = ReadFlag r
        in v # rawDeltaCodes r (i + 1) n
      else [])"
  by pat_completeness auto
termination
  by (relation "measure (\<lambda>(r, i, n). unat n - unat i)") (auto, unat_arith)

declare rawDeltaCodes.simps [simp del]
text \<open>
  The cursor and the record with which \<open>ParseSPSNALUnit\<close> enters the loop of
  line 216, for an input that passed the type check and the sub-layer check.
\<close>

definition spsLoopEntry :: "byte list \<Rightarrow> AccErrEBSPReader \<times> SPS" where
  "spsLoopEntry data =
     (let (r, naluHdrBits) = Read (NewAccErrEBSPReader data) 16;
          (r, sps) = parseProfileTierLevel r emptySPS
      in parseSPSFields r sps)"

text \<open>
  A scaling list as the specification lays it out: the twelve lists of size classes
  0 and 1 with the prediction-mode flag 0 and a matrix delta of 0 (bits \<open>01\<close>), the
  first list of size class 2 with the flag 1, a DC coefficient code \<open>1\<close> and 64 delta
  codes \<open>1\<close>, and the seven lists left with bits \<open>01\<close>: 104 bits.
\<close>

definition scalingListExample :: "byte list" where
  "scalingListExample =
     [0x55, 0x55, 0x55, 0xFF, 0xFF, 0xFF, 0xFF, 0xFF, 0xFF, 0xFF, 0xFF, 0xD5, 0x55]"

text \<open>
  An SPS NAL unit: main profile, 1920 x 1088 with a bottom offset of 4, three
  short-term reference picture sets announced; the first has one negative picture,
  the second announces 17 negative pictures.
\<close>

definition spsExample :: "byte list" where
  "spsExample =
     [0x42, 0x01, 0x01, 0x01, 0x60, 0x00, 0x00, 0x00, 0x90, 0x00, 0x00, 0x00, 0x00, 0x00, 0x5d, 0xa0, 0x03, 0xc0, 0x80, 0x11, 0x07, 0xcb, 0x96, 0x57, 0x92, 0x4c, 0x88, 0xb8, 0x25, 0xff]"

definition spsExampleRecord :: SPS where
  "spsExampleRecord = emptySPS\<lparr>TemporalIDNestingFlag := True,
     ProfileTierLevel := emptyProfileTierLevel\<lparr>GeneralProfileIDC := 1,
       GeneralProfileCompatibilityFlags := 0x60000000,
       GeneralConstraintIndicatorFlags := 0x900000000000, GeneralLevelIDC := 93\<rparr>,
     ChromaFormatIDC := 1, ConformanceWindowFlag := True,
     PicWidthInLumaSamples := 1920, PicHeightInLumaSamples := 1088,
     ConformanceWindow := \<lparr>LeftOffset = 0, RightOffset = 0, TopOffset = 0, BottomOffset = 4\<rparr>,
     Log2MaxPicOrderCntLsbMinus4 := 4, SubLayerOrderingInfoPresentFlag := True,
     SubLayeringOrderingInfos := [\<lparr>MaxDecPicBufferingMinus1 = 4, MaxNumReorderPics = 2,
       MaxLatencyIncreasePlus1 = 0\<rparr>],
     Log2DiffMaxMinLumaCodingBlockSize := 3, Log2DiffMaxMinLumaTransformBlockSize := 3,
     SampleAdaptiveOffsetEnabledFlag := True, NumShortTermRefPicSets := 3\<rparr>"

section \<open>Properties\<close>

subsection \<open>Word counters\<close>

lemma word_counter_suc: "(i::'a::len word) < n \<Longrightarrow> unat (i + 1) = Suc (unat i)"
  by unat_arith

lemma word_counter_le: "(i::'a::len word) < n \<Longrightarrow> i + 1 \<le> n"
  by unat_arith

subsection \<open>Derived geometry\<close>

text \<open>
  C5. \<open>ImageSize\<close> returns the encoded width minus (left + right) times the
  horizontal factor and the encoded height minus (top + bottom) times the vertical
  factor, in \<open>uint32\<close> arithmetic; the factors are (2, 2) for chroma format IDC 1,
  (2, 1) for IDC 2 and (1, 1) for every other IDC. IDC 1 with 1920 x 1088 and a bottom
  offset of 4 gives 1920 x 1080.
\<close>

theorem ImageSize_display_size:
  "(ChromaFormatIDC s = 1 \<longrightarrow> ImageSize s =
      (PicWidthInLumaSamples s
         - (LeftOffset (ConformanceWindow s) + RightOffset (ConformanceWindow s)) * 2,
       PicHeightInLumaSamples s
         - (TopOffset (ConformanceWindow s) + BottomOffset (ConformanceWindow s)) * 2)) \<and>
   (ChromaFormatIDC s = 2 \<longrightarrow> ImageSize s =
      (PicWidthInLumaSamples s
         - (LeftOffset (ConformanceWindow s) + RightOffset (ConformanceWindow s)) * 2,
       PicHeightInLumaSamples s
         - (TopOffset (ConformanceWindow s) + BottomOffset (ConformanceWindow s)) * 1)) \<and>
   (ChromaFormatIDC s \<noteq> 1 \<and> ChromaFormatIDC s \<noteq> 2 \<longrightarrow> ImageSize s =
      (PicWidthInLumaSamples s
         - (LeftOffset (ConformanceWindow s) + RightOffset (ConformanceWindow s)) * 1,
       PicHeightInLumaSamples s
         - (TopOffset (ConformanceWindow s) + BottomOffset (ConformanceWindow s)) * 1)) \<and>
   ImageSize (emptySPS\<lparr>ChromaFormatIDC := 1, PicWidthInLumaSamples := 1920,
       PicHeightInLumaSamples := 1088,
       ConformanceWindow := \<lparr>LeftOffset = 0, RightOffset = 0, TopOffset = 0, BottomOffset = 4\<rparr>\<rparr>)
     = (1920, 1080)"
  by (simp add: ImageSize_def emptySPS_def)

theorem ImageSize_display_size_witness:
  "ChromaFormatIDC (emptySPS\<lparr>ChromaFormatIDC := 1, PicWidthInLumaSamples := 720,
       PicHeightInLumaSamples := 576,
       ConformanceWindow := \<lparr>LeftOffset = 4, RightOffset = 4, TopOffset = 2, BottomOffset = 6\<rparr>\<rparr>) = 1 \<and>
   ImageSize (emptySPS\<lparr>ChromaFormatIDC := 1, PicWidthInLumaSamples := 720,
       PicHeightInLumaSamples := 576,
       ConformanceWindow := \<lparr>LeftOffset = 4, RightOffset = 4, TopOffset = 2, BottomOffset = 6\<rparr>\<rparr>)
     = (704, 560) \<and>
   ChromaFormatIDC (emptySPS\<lparr>ChromaFormatIDC := 2, PicWidthInLumaSamples := 720,
       PicHeightInLumaSamples := 576,
       ConformanceWindow := \<lparr>LeftOffset = 4, RightOffset = 4, TopOffset = 2, BottomOffset = 6\<rparr>\<rparr>) = 2 \<and>
   ImageSize (emptySPS\<lparr>ChromaFormatIDC := 2, PicWidthInLumaSamples := 720,
       PicHeightInLumaSamples := 576,
       ConformanceWindow := \<lparr>LeftOffset = 4, RightOffset = 4, TopOffset = 2, BottomOffset = 6\<rparr>\<rparr>)
     = (704, 568) \<and>
   ImageSize (emptySPS\<lparr>ChromaFormatIDC := 3, PicWidthInLumaSamples := 720,
       PicHeightInLumaSamples := 576,
       ConformanceWindow := \<lparr>LeftOffset = 4, RightOffset = 4, TopOffset = 2, BottomOffset = 6\<rparr>\<rparr>)
     = (712, 568)"
  using
    ImageSize_display_size [of "emptySPS\<lparr>ChromaFormatIDC := 1, PicWidthInLumaSamples := 720,
       PicHeightInLumaSamples := 576,
       ConformanceWindow := \<lparr>LeftOffset = 4, RightOffset = 4, TopOffset = 2, BottomOffset = 6\<rparr>\<rparr>"]
    ImageSize_display_size [of "emptySPS\<lparr>ChromaFormatIDC := 2, PicWidthInLumaSamples := 720,
       PicHeightInLumaSamples := 576,
       ConformanceWindow := \<lparr>LeftOffset = 4, RightOffset = 4, TopOffset = 2, BottomOffset = 6\<rparr>\<rparr>"]
    ImageSize_display_size [of "emptySPS\<lparr>ChromaFormatIDC := 3, PicWidthInLumaSamples := 720,
       PicHeightInLumaSamples := 576,
       ConformanceWindow := \<lparr>LeftOffset = 4, RightOffset = 4, TopOffset = 2, BottomOffset = 6\<rparr>\<rparr>"]
  by (simp add: emptySPS_def)

text \<open>
  C9. \<open>ImageSize\<close> checks nothing and always returns a pair: read as integers, the
  results are the differences reduced modulo \<open>2 ^ 32\<close>, also when the scaled
  offsets exceed the encoded size. With IDC 1, encoded 16 x 16 and left = right = 5 the
  width is \<open>16 - 20\<close> wrapped, that is 4294967292.
\<close>

theorem ImageSize_wraps:
  "uint (fst (ImageSize s)) =
     (uint (PicWidthInLumaSamples s)
        - (uint (LeftOffset (ConformanceWindow s)) + uint (RightOffset (ConformanceWindow s)))
          * (if ChromaFormatIDC s = 1 \<or> ChromaFormatIDC s = 2 then 2 else 1)) mod 2 ^ 32 \<and>
   uint (snd (ImageSize s)) =
     (uint (PicHeightInLumaSamples s)
        - (uint (TopOffset (ConformanceWindow s)) + uint (BottomOffset (ConformanceWindow s)))
          * (if ChromaFormatIDC s = 1 then 2 else 1)) mod 2 ^ 32 \<and>
   ImageSize (emptySPS\<lparr>ChromaFormatIDC := 1, PicWidthInLumaSamples := 16,
       PicHeightInLumaSamples := 16,
       ConformanceWindow := \<lparr>LeftOffset = 5, RightOffset = 5, TopOffset = 0, BottomOffset = 9\<rparr>\<rparr>)
     = (4294967292, 4294967294)"
  by (simp add: ImageSize_def emptySPS_def uint_word_ariths mod_simps)

theorem ImageSize_wraps_witness:
  "uint (fst (ImageSize (emptySPS\<lparr>ChromaFormatIDC := 2, PicWidthInLumaSamples := 16,
       PicHeightInLumaSamples := 16,
       ConformanceWindow := \<lparr>LeftOffset = 5, RightOffset = 5, TopOffset = 0, BottomOffset = 17\<rparr>\<rparr>)))
     = 4294967292 \<and>
   uint (snd (ImageSize (emptySPS\<lparr>ChromaFormatIDC := 2, PicWidthInLumaSamples := 16,
       PicHeightInLumaSamples := 16,
       ConformanceWindow := \<lparr>LeftOffset = 5, RightOffset = 5, TopOffset = 0, BottomOffset = 17\<rparr>\<rparr>)))
     = 4294967295"
  using ImageSize_wraps [of "emptySPS\<lparr>ChromaFormatIDC := 2, PicWidthInLumaSamples := 16,
       PicHeightInLumaSamples := 16,
       ConformanceWindow := \<lparr>LeftOffset = 5, RightOffset = 5, TopOffset = 0, BottomOffset = 17\<rparr>\<rparr>"]
  by (simp add: emptySPS_def)

subsection \<open>The unit type check and the sub-layer policy\<close>

text \<open>
  C8. When the type decoded from the 16-bit NAL header is not the SPS tag,
  \<open>ParseSPSNALUnit\<close> returns no record and the \<open>WrongUnitType\<close> error, whatever
  bytes follow.
\<close>

theorem ParseSPSNALUnit_wrong_unit_type:
  "GetNaluType ext (ucast (drop_bit 8 (snd (Read (NewAccErrEBSPReader data) 16)))) \<noteq> NALU_SPS ext
   \<Longrightarrow> ParseSPSNALUnit ext data = Inr (None, Some WrongUnitType)"
  by (simp add: ParseSPSNALUnit_def Let_def split_def)

theorem ParseSPSNALUnit_wrong_unit_type_witness:
  "ParseSPSNALUnit hevcExternals [0x40, 0x01, 0x0c, 0x01, 0xff, 0xff] = Inr (None, Some WrongUnitType)"
proof -
  have "GetNaluType hevcExternals
      (ucast (drop_bit 8 (snd (Read (NewAccErrEBSPReader [0x40, 0x01, 0x0c, 0x01, 0xff, 0xff]) 16))))
    \<noteq> NALU_SPS hevcExternals"
    by code_simp
  then show ?thesis by (rule ParseSPSNALUnit_wrong_unit_type)
qed

lemma parseProfileTierLevel_frame:
  "snd (parseProfileTierLevel r sps) =
   sps\<lparr>VpsID := VpsID (snd (parseProfileTierLevel r sps)),
       MaxSubLayersMinus1 := MaxSubLayersMinus1 (snd (parseProfileTierLevel r sps)),
       TemporalIDNestingFlag := TemporalIDNestingFlag (snd (parseProfileTierLevel r sps)),
       ProfileTierLevel := ProfileTierLevel (snd (parseProfileTierLevel r sps))\<rparr>"
  by (simp add: parseProfileTierLevel_def Let_def split_def)

text \<open>
  C4. When the header type is SPS and the decoded \<open>MaxSubLayersMinus1\<close> is not zero,
  \<open>ParseSPSNALUnit\<close> returns, with a nil error, the record as it is right after the
  profile, tier and level: the zero record with only \<open>VpsID\<close>,
  \<open>MaxSubLayersMinus1\<close>, \<open>TemporalIDNestingFlag\<close> and \<open>ProfileTierLevel\<close> set.
\<close>

theorem ParseSPSNALUnit_sub_layers:
  assumes "GetNaluType ext (ucast (drop_bit 8 (snd (Read (NewAccErrEBSPReader data) 16))))
             = NALU_SPS ext"
    and "MaxSubLayersMinus1
           (snd (parseProfileTierLevel (fst (Read (NewAccErrEBSPReader data) 16)) emptySPS)) \<noteq> 0"
  shows "(let sps = snd (parseProfileTierLevel (fst (Read (NewAccErrEBSPReader data) 16)) emptySPS)
          in ParseSPSNALUnit ext data = Inr (Some sps, None) \<and>
             sps = emptySPS\<lparr>VpsID := VpsID sps, MaxSubLayersMinus1 := MaxSubLayersMinus1 sps,
                     TemporalIDNestingFlag := TemporalIDNestingFlag sps,
                     ProfileTierLevel := ProfileTierLevel sps\<rparr>)"
proof -
  have "ParseSPSNALUnit ext data =
      Inr (Some (snd (parseProfileTierLevel (fst (Read (NewAccErrEBSPReader data) 16)) emptySPS)),
           None)"
    using assms by (simp add: ParseSPSNALUnit_def Let_def split_def)
  then show ?thesis
    using parseProfileTierLevel_frame [of "fst (Read (NewAccErrEBSPReader data) 16)" emptySPS]
    by (simp add: Let_def)
qed

theorem ParseSPSNALUnit_sub_layers_witness:
  "ParseSPSNALUnit hevcExternals
     [0x42, 0x01, 0x05, 0x01, 0x60, 0, 0, 0, 0x90, 0, 0, 0, 0, 0, 0x78, 0xa0, 0x02] =
   Inr (Some (emptySPS\<lparr>MaxSubLayersMinus1 := 2, TemporalIDNestingFlag := True,
          ProfileTierLevel := emptyProfileTierLevel\<lparr>GeneralProfileIDC := 1,
            GeneralProfileCompatibilityFlags := 0x60000000,
            GeneralConstraintIndicatorFlags := 0x900000000000,
            GeneralLevelIDC := 120\<rparr>\<rparr>), None)"
proof -
  have h1: "GetNaluType hevcExternals (ucast (drop_bit 8 (snd (Read (NewAccErrEBSPReader
      [0x42, 0x01, 0x05, 0x01, 0x60, 0, 0, 0, 0x90, 0, 0, 0, 0, 0, 0x78, 0xa0, 0x02]) 16))))
    = NALU_SPS hevcExternals"
    by code_simp
  have v: "snd (parseProfileTierLevel (fst (Read (NewAccErrEBSPReader
      [0x42, 0x01, 0x05, 0x01, 0x60, 0, 0, 0, 0x90, 0, 0, 0, 0, 0, 0x78, 0xa0, 0x02]) 16)) emptySPS)
    = emptySPS\<lparr>MaxSubLayersMinus1 := 2, TemporalIDNestingFlag := True,
          ProfileTierLevel := emptyProfileTierLevel\<lparr>GeneralProfileIDC := 1,
            GeneralProfileCompatibilityFlags := 0x60000000,
            GeneralConstraintIndicatorFlags := 0x900000000000,
            GeneralLevelIDC := 120\<rparr>\<rparr>"
    by code_simp
  have h2: "MaxSubLayersMinus1 (snd (parseProfileTierLevel (fst (Read (NewAccErrEBSPReader
      [0x42, 0x01, 0x05, 0x01, 0x60, 0, 0, 0, 0x90, 0, 0, 0, 0, 0, 0x78, 0xa0, 0x02]) 16)) emptySPS))
    \<noteq> 0"
    by (simp add: v)
  show ?thesis
    using ParseSPSNALUnit_sub_layers [OF h1 h2] by (simp add: v Let_def)
qed

subsection \<open>Scaling list skip\<close>

text \<open>
  C1. The specification asks, for a list whose prediction-mode flag is true and
  whose \<open>sizeId\<close> is above 1, for one DC-coefficient Exp-Golomb read before the
  \<open>min(64, 1 << (4 + 2 * sizeId))\<close> delta coefficients. Line 431 names
  \<open>r.ReadExpGolomb\<close> without calling it, so the code reads no DC coefficient: on
  the 104 bits of \<open>scalingListExample\<close> the step for size class 2 that starts at
  bit 24 ends at bit 89 where the specified step ends at bit 90, and the whole
  routine, one bit behind from there on, runs off the end of a stream that holds
  exactly the specified structure.
\<close>

theorem skipScalingList_reads_no_dc_coefficient:
  "skipScalingList \<lparr>buffer = scalingListExample, bitOffset = 24, status = None\<rparr> 2 =
     \<lparr>buffer = scalingListExample, bitOffset = 89, status = None\<rparr> \<and>
   skipScalingListSpec \<lparr>buffer = scalingListExample, bitOffset = 24, status = None\<rparr> 2 =
     \<lparr>buffer = scalingListExample, bitOffset = 90, status = None\<rparr> \<and>
   readPastScalingListData (NewAccErrEBSPReader scalingListExample) =
     \<lparr>buffer = scalingListExample, bitOffset = 104, status = Some Truncated\<rparr>"
proof -
  have a: "skipScalingList \<lparr>buffer = scalingListExample, bitOffset = 24, status = None\<rparr> 2 =
     \<lparr>buffer = scalingListExample, bitOffset = 89, status = None\<rparr>"
    by code_simp
  have b: "skipScalingListSpec \<lparr>buffer = scalingListExample, bitOffset = 24, status = None\<rparr> 2 =
     \<lparr>buffer = scalingListExample, bitOffset = 90, status = None\<rparr>"
    by code_simp
  have c: "readPastScalingListData (NewAccErrEBSPReader scalingListExample) =
     \<lparr>buffer = scalingListExample, bitOffset = 104, status = Some Truncated\<rparr>"
    by code_simp
  from a b c show ?thesis by simp
qed

subsection \<open>Short-term reference picture sets: the inter-prediction branch\<close>

text \<open>
  C2. The specification asks that a \<open>deltaIdx\<close> above \<open>idx\<close> fails with
  \<open>Malformed\<close> without indexing the decoded entries out of range. The code latches the error at line 371 and goes on
  to line 377: \<open>idx - deltaIdx\<close> wraps to a byte above \<open>idx\<close>, and with no more
  than \<open>idx\<close> entries decoded so far the index is outside the slice: the call panics.
\<close>

theorem parseShortTermRPS_forward_reference_panics:
  assumes "snd (readInterRPSPredFlag r idx)"
      and "idx < snd (readDeltaIdx (fst (readInterRPSPredFlag r idx)) idx numSTRefPicSets)"
      and "length (ShortTermRefPicSets sps) \<le> unat idx"
  shows "parseShortTermRPS r idx numSTRefPicSets sps = Inl IndexOutOfRange"
proof -
  obtain r1 flag where f: "readInterRPSPredFlag r idx = (r1, flag)"
    by (cases "readInterRPSPredFlag r idx")
  obtain r2 deltaIdx where d: "readDeltaIdx r1 idx numSTRefPicSets = (r2, deltaIdx)"
    by (cases "readDeltaIdx r1 idx numSTRefPicSets")
  from assms f d have lt: "idx < deltaIdx" and fl: flag by simp_all
  then have "unat idx < unat (idx - deltaIdx)" by unat_arith
  with assms(3) have "length (ShortTermRefPicSets sps) \<le> unat (idx - deltaIdx)" by simp
  with f d fl show ?thesis
    by (simp add: parseShortTermRPS_def parseInterRPS_def Let_def split_def)
qed

theorem parseShortTermRPS_forward_reference_panics_witness:
  "parseShortTermRPS (NewAccErrEBSPReader [0xA0]) 1 1
     (emptySPS\<lparr>NumShortTermRefPicSets := 1, ShortTermRefPicSets := [emptyRPS]\<rparr>)
   = Inl IndexOutOfRange \<and>
   readDeltaIdx (fst (readInterRPSPredFlag (NewAccErrEBSPReader [0xA0]) 1)) 1 1 =
     (\<lparr>buffer = [0xA0], bitOffset = 4, status = None\<rparr>, 2)"
proof -
  have h1: "snd (readInterRPSPredFlag (NewAccErrEBSPReader [0xA0]) 1)"
    by code_simp
  have v: "readDeltaIdx (fst (readInterRPSPredFlag (NewAccErrEBSPReader [0xA0]) 1)) 1 1 =
     (\<lparr>buffer = [0xA0], bitOffset = 4, status = None\<rparr>, 2)"
    by code_simp
  have h2: "1 < snd (readDeltaIdx (fst (readInterRPSPredFlag (NewAccErrEBSPReader [0xA0]) 1)) 1 1)"
    by (simp add: v)
  have h3: "length (ShortTermRefPicSets
      (emptySPS\<lparr>NumShortTermRefPicSets := 1, ShortTermRefPicSets := [emptyRPS]\<rparr>)) \<le> unat (1::byte)"
    by simp
  from parseShortTermRPS_forward_reference_panics [OF h1 h2 h3] v show ?thesis by simp
qed

subsection \<open>The loop over the short-term reference picture sets\<close>

lemma shortTermRPSLoop_stop:
  assumes "idx < NumShortTermRefPicSets sps"
      and "parseShortTermRPS r idx (NumShortTermRefPicSets sps) sps = Inr (r', stps)"
      and "AccError r' \<noteq> None"
  shows "shortTermRPSLoop r idx sps =
           Inr (r', sps\<lparr>ShortTermRefPicSets := ShortTermRefPicSets sps @ [stps]\<rparr>, True)"
  using assms by (subst shortTermRPSLoop.simps) simp

lemma shortTermRPSLoop_continue:
  assumes "idx < NumShortTermRefPicSets sps"
      and "parseShortTermRPS r idx (NumShortTermRefPicSets sps) sps = Inr (r', stps)"
      and "AccError r' = None"
  shows "shortTermRPSLoop r idx sps =
           shortTermRPSLoop r' (idx + 1)
             (sps\<lparr>ShortTermRefPicSets := ShortTermRefPicSets sps @ [stps]\<rparr>)"
  using assms by (subst shortTermRPSLoop.simps) simp

lemma shortTermRPSLoop_returned_error:
  "shortTermRPSLoop r idx sps = Inr (r', sps', True) \<Longrightarrow> AccError r' \<noteq> None"
proof (induction r idx sps rule: shortTermRPSLoop.induct)
  case (1 r idx sps)
  show ?case
  proof (cases "idx < NumShortTermRefPicSets sps")
    case True
    show ?thesis
    proof (cases "parseShortTermRPS r idx (NumShortTermRefPicSets sps) sps")
      case (Inl p)
      with True "1.prems" show ?thesis by (subst (asm) shortTermRPSLoop.simps) simp
    next
      case (Inr b)
      obtain r1 stps where b: "b = (r1, stps)" by (cases b)
      show ?thesis
      proof (cases "AccError r1 = None")
        case noerr: True
        from "1.prems" have
          "shortTermRPSLoop r1 (idx + 1)
             (sps\<lparr>ShortTermRefPicSets := ShortTermRefPicSets sps @ [stps]\<rparr>) = Inr (r', sps', True)"
          using True Inr b noerr by (subst (asm) shortTermRPSLoop.simps) simp
        with "1.IH" [OF True Inr b [symmetric] refl] noerr show ?thesis by simp
      next
        case False
        with "1.prems" True Inr b show ?thesis by (subst (asm) shortTermRPSLoop.simps) auto
      qed
    qed
  next
    case False
    with "1.prems" show ?thesis by (subst (asm) shortTermRPSLoop.simps) simp
  qed
qed

lemma ParseSPSNALUnit_loop_returned:
  assumes "GetNaluType ext (ucast (drop_bit 8 (snd (Read (NewAccErrEBSPReader data) 16))))
             = NALU_SPS ext"
    and "MaxSubLayersMinus1
           (snd (parseProfileTierLevel (fst (Read (NewAccErrEBSPReader data) 16)) emptySPS)) = 0"
    and "shortTermRPSLoop (fst (spsLoopEntry data)) 0 (snd (spsLoopEntry data)) = Inr (r', sps', True)"
  shows "ParseSPSNALUnit ext data = Inr (Some sps', AccError r')"
  using assms by (simp add: ParseSPSNALUnit_def spsLoopEntry_def Let_def split_def)

text \<open>
  C7. In the loop of lines 216-221, when the cursor has a latched error after an
  entry is decoded and appended, the loop ends there: its result is the record with
  exactly that entry appended, and nothing more is read. \<open>ParseSPSNALUnit\<close> then
  returns that record together with the latched error.
\<close>

theorem shortTermRPSLoop_checkpoint:
  "(idx < NumShortTermRefPicSets sps \<and>
    parseShortTermRPS r idx (NumShortTermRefPicSets sps) sps = Inr (r', stps) \<and>
    AccError r' \<noteq> None \<longrightarrow>
      shortTermRPSLoop r idx sps =
        Inr (r', sps\<lparr>ShortTermRefPicSets := ShortTermRefPicSets sps @ [stps]\<rparr>, True)) \<and>
   (GetNaluType ext (ucast (drop_bit 8 (snd (Read (NewAccErrEBSPReader data) 16)))) = NALU_SPS ext \<and>
    MaxSubLayersMinus1
      (snd (parseProfileTierLevel (fst (Read (NewAccErrEBSPReader data) 16)) emptySPS)) = 0 \<and>
    shortTermRPSLoop (fst (spsLoopEntry data)) 0 (snd (spsLoopEntry data)) = Inr (r'', sps'', True) \<longrightarrow>
      ParseSPSNALUnit ext data = Inr (Some sps'', AccError r'') \<and> AccError r'' \<noteq> None)"
  using shortTermRPSLoop_stop [of idx sps r r' stps]
    ParseSPSNALUnit_loop_returned [of ext data r'' sps'']
    shortTermRPSLoop_returned_error [of "fst (spsLoopEntry data)" 0 "snd (spsLoopEntry data)" r'' sps'']
  by blast

theorem shortTermRPSLoop_checkpoint_witness:
  "shortTermRPSLoop \<lparr>buffer = spsExample, bitOffset = 221, status = None\<rparr> 1
     (spsExampleRecord\<lparr>ShortTermRefPicSets :=
        [emptyRPS\<lparr>DeltaPocS0 := [1], UsedByCurrPicS0 := [True], NumNegativePics := 1,
           NumDeltaPocs := 1\<rparr>]\<rparr>) =
   Inr (\<lparr>buffer = spsExample, bitOffset = 232, status = Some TooManyReferencePictures\<rparr>,
        spsExampleRecord\<lparr>ShortTermRefPicSets :=
          [emptyRPS\<lparr>DeltaPocS0 := [1], UsedByCurrPicS0 := [True], NumNegativePics := 1,
             NumDeltaPocs := 1\<rparr>,
           emptyRPS\<lparr>NumNegativePics := 17\<rparr>]\<rparr>,
        True) \<and>
   ParseSPSNALUnit hevcExternals spsExample =
   Inr (Some (spsExampleRecord\<lparr>ShortTermRefPicSets :=
          [emptyRPS\<lparr>DeltaPocS0 := [1], UsedByCurrPicS0 := [True], NumNegativePics := 1,
             NumDeltaPocs := 1\<rparr>,
           emptyRPS\<lparr>NumNegativePics := 17\<rparr>]\<rparr>),
        Some TooManyReferencePictures)"
proof -
  let ?e0 = "emptyRPS\<lparr>DeltaPocS0 := [1], UsedByCurrPicS0 := [True], NumNegativePics := 1,
    NumDeltaPocs := 1\<rparr>"
  let ?e1 = "emptyRPS\<lparr>NumNegativePics := 17\<rparr>"
  let ?r1 = "\<lparr>buffer = spsExample, bitOffset = 221, status = None\<rparr>"
  let ?r2 = "\<lparr>buffer = spsExample, bitOffset = 232, status = Some TooManyReferencePictures\<rparr>"
  let ?s1 = "spsExampleRecord\<lparr>ShortTermRefPicSets := [?e0]\<rparr>"
  let ?s2 = "spsExampleRecord\<lparr>ShortTermRefPicSets := [?e0, ?e1]\<rparr>"
  have lt: "1 < NumShortTermRefPicSets ?s1"
    by (simp add: spsExampleRecord_def)
  have p: "parseShortTermRPS ?r1 1 (NumShortTermRefPicSets ?s1) ?s1 = Inr (?r2, ?e1)"
    by code_simp
  have er: "AccError ?r2 \<noteq> None"
    by (simp add: AccError_def)
  have h1: "GetNaluType hevcExternals
      (ucast (drop_bit 8 (snd (Read (NewAccErrEBSPReader spsExample) 16)))) = NALU_SPS hevcExternals"
    by code_simp
  have h2: "MaxSubLayersMinus1
      (snd (parseProfileTierLevel (fst (Read (NewAccErrEBSPReader spsExample) 16)) emptySPS)) = 0"
    by code_simp
  have lp: "shortTermRPSLoop (fst (spsLoopEntry spsExample)) 0 (snd (spsLoopEntry spsExample)) =
      Inr (?r2, ?s2, True)"
    by code_simp
  from shortTermRPSLoop_checkpoint [of 1 ?s1 ?r1 ?r2 ?e1 hevcExternals spsExample ?r2 ?s2]
    lt p er h1 h2 lp
  show ?thesis by (simp add: AccError_def)
qed

subsection \<open>VUI parameters: the HRD early return\<close>

lemma parseAspectRatio_restrictions:
  "BitstreamRestrictionFlag (snd (parseAspectRatio ext r vui)) = BitstreamRestrictionFlag vui \<and>
   BitstreamResctrictions (snd (parseAspectRatio ext r vui)) = BitstreamResctrictions vui"
  by (simp add: parseAspectRatio_def Let_def split_def)

lemma parseVUIFlags_restrictions:
  "BitstreamRestrictionFlag (snd (parseVUIFlags r vui)) = BitstreamRestrictionFlag vui \<and>
   BitstreamResctrictions (snd (parseVUIFlags r vui)) = BitstreamResctrictions vui"
  by (simp add: parseVUIFlags_def Let_def split_def)

lemma parseVUITiming_restrictions:
  "BitstreamRestrictionFlag (fst (snd (parseVUITiming r vui))) = BitstreamRestrictionFlag vui \<and>
   BitstreamResctrictions (fst (snd (parseVUITiming r vui))) = BitstreamResctrictions vui"
  by (simp add: parseVUITiming_def Let_def split_def)

lemma parseVUITiming_returned:
  "snd (snd (parseVUITiming r vui)) =
     (TimingInfoPresentFlag (fst (snd (parseVUITiming r vui))) \<and>
      HrdParametersPresentFlag (fst (snd (parseVUITiming r vui))))"
  by (simp add: parseVUITiming_def Let_def split_def)

lemma parseVUIRestrictions_timing:
  "TimingInfoPresentFlag (snd (parseVUIRestrictions r vui)) = TimingInfoPresentFlag vui \<and>
   HrdParametersPresentFlag (snd (parseVUIRestrictions r vui)) = HrdParametersPresentFlag vui"
  by (simp add: parseVUIRestrictions_def Let_def split_def)

text \<open>
  C6. When the decoded VUI has the timing-info flag and the HRD flag set,
  \<open>parseVUI\<close> has returned at line 316: its result is the cursor and the record
  as they are right after the HRD flag is read, so the bitstream-restriction flag is
  not read, \<open>BitstreamRestrictionFlag\<close> is false and there are no
  \<open>BitstreamResctrictions\<close>.
\<close>

theorem parseVUI_hrd_early_return:
  assumes "parseVUI ext r = (r', vui)"
      and "TimingInfoPresentFlag vui"
      and "HrdParametersPresentFlag vui"
  shows "(let (r1, vui1) = parseAspectRatio ext r emptyVUI;
              (r2, vui2) = parseVUIFlags r1 vui1
          in parseVUITiming r2 vui2) = (r', vui, True) \<and>
         \<not> BitstreamRestrictionFlag vui \<and> BitstreamResctrictions vui = None"
proof -
  obtain r1 vui1 where a: "parseAspectRatio ext r emptyVUI = (r1, vui1)"
    by (cases "parseAspectRatio ext r emptyVUI")
  obtain r2 vui2 where b: "parseVUIFlags r1 vui1 = (r2, vui2)"
    by (cases "parseVUIFlags r1 vui1")
  obtain r3 vui3 returned where c: "parseVUITiming r2 vui2 = (r3, vui3, returned)"
    by (cases "parseVUITiming r2 vui2")
  have ret: "returned = (TimingInfoPresentFlag vui3 \<and> HrdParametersPresentFlag vui3)"
    using parseVUITiming_returned [of r2 vui2] c by simp
  have returned
  proof (rule ccontr)
    assume n: "\<not> returned"
    with assms(1) a b c have "vui = snd (parseVUIRestrictions r3 vui3)"
      by (simp add: parseVUI_def Let_def)
    with assms(2,3) parseVUIRestrictions_timing [of r3 vui3] ret n show False by simp
  qed
  with assms(1) a b c have eq: "r' = r3" "vui = vui3"
    by (simp_all add: parseVUI_def Let_def)
  have "BitstreamRestrictionFlag vui3 = BitstreamRestrictionFlag emptyVUI \<and>
        BitstreamResctrictions vui3 = BitstreamResctrictions emptyVUI"
    using parseAspectRatio_restrictions [of ext r emptyVUI] parseVUIFlags_restrictions [of r1 vui1]
      parseVUITiming_restrictions [of r2 vui2] a b c by simp
  then have "\<not> BitstreamRestrictionFlag vui3 \<and> BitstreamResctrictions vui3 = None"
    by (simp add: emptyVUI_def)
  with eq a b c \<open>returned\<close> show ?thesis by simp
qed

theorem parseVUI_hrd_early_return_witness:
  "parseVUI hevcExternals (NewAccErrEBSPReader [0x00, 0x80, 0, 0, 0, 0x80, 0, 0, 0x0C, 0xBF]) =
     (\<lparr>buffer = [0x00, 0x80, 0, 0, 0, 0x80, 0, 0, 0x0C, 0xBF], bitOffset = 75, status = None\<rparr>,
      emptyVUI\<lparr>TimingInfoPresentFlag := True, NumUnitsInTick := 1, TimeScale := 25,
        HrdParametersPresentFlag := True\<rparr>) \<and>
   snd (ReadFlag \<lparr>buffer = [0x00, 0x80, 0, 0, 0, 0x80, 0, 0, 0x0C, 0xBF], bitOffset = 75,
     status = None\<rparr>) \<and>
   \<not> BitstreamRestrictionFlag (emptyVUI\<lparr>TimingInfoPresentFlag := True, NumUnitsInTick := 1,
        TimeScale := 25, HrdParametersPresentFlag := True\<rparr>)"
proof -
  let ?r = "NewAccErrEBSPReader [0x00, 0x80, 0, 0, 0, 0x80, 0, 0, 0x0C, 0xBF]"
  let ?r' = "\<lparr>buffer = [0x00, 0x80, 0, 0, 0, 0x80, 0, 0, 0x0C, 0xBF], bitOffset = 75,
    status = None\<rparr>"
  let ?vui = "emptyVUI\<lparr>TimingInfoPresentFlag := True, NumUnitsInTick := 1, TimeScale := 25,
    HrdParametersPresentFlag := True\<rparr>"
  have p: "parseVUI hevcExternals ?r = (?r', ?vui)"
    by code_simp
  have t: "TimingInfoPresentFlag ?vui" and h: "HrdParametersPresentFlag ?vui"
    by simp_all
  have f: "snd (ReadFlag ?r')"
    by code_simp
  from parseVUI_hrd_early_return [OF p t h] p f show ?thesis by simp
qed


subsection \<open>Short-term reference picture sets: the explicit branch\<close>

lemma parseExplicitRPS_counts:
  "NumNegativePics (snd (parseExplicitRPS r emptyRPS)) = ucast (snd (ReadExpGolomb r)) \<and>
   NumPositivePics (snd (parseExplicitRPS r emptyRPS)) =
     ucast (snd (ReadExpGolomb (fst (ReadExpGolomb r))))"
  by (simp add: parseExplicitRPS_def Let_def split_def)

lemma explicit_branch_result:
  "\<not> snd (readInterRPSPredFlag r idx) \<Longrightarrow>
   parseShortTermRPS r idx n sps = Inr (parseExplicitRPS (fst (readInterRPSPredFlag r idx)) emptyRPS)"
  by (simp add: parseShortTermRPS_def Let_def split_def)

text \<open>
  C3. The specification asks that any encoded negative or positive picture count
  above 16 latches \<open>TooManyReferencePictures\<close>, leaves the lists empty and ends the
  loop. Lines 389-390 convert the Exp-Golomb value with \<open>byte(...)\<close> before line 391
  compares it with 16, so a count of 256 is stored as 0 and passes the check. On the
  bytes 00 80 F0 the first code has the value 256; the entry comes back with both
  counts 0 and no error latched. On 00 80 D8, with two sets announced, the loop goes
  on and appends a second entry. \<open>SetError\<close> is not reached on either input.
\<close>

theorem parseShortTermRPS_count_cast_before_check:
  "ReadExpGolomb (NewAccErrEBSPReader [0x00, 0x80, 0xF0]) =
     (\<lparr>buffer = [0x00, 0x80, 0xF0], bitOffset = 17, status = None\<rparr>, 256) \<and>
   parseShortTermRPS (NewAccErrEBSPReader [0x00, 0x80, 0xF0]) 0 1
     (emptySPS\<lparr>NumShortTermRefPicSets := 1\<rparr>) =
     Inr (\<lparr>buffer = [0x00, 0x80, 0xF0], bitOffset = 18, status = None\<rparr>, emptyRPS) \<and>
   shortTermRPSLoop (NewAccErrEBSPReader [0x00, 0x80, 0xD8]) 0
     (emptySPS\<lparr>NumShortTermRefPicSets := 2\<rparr>) =
     Inr (\<lparr>buffer = [0x00, 0x80, 0xD8], bitOffset = 21, status = None\<rparr>,
          emptySPS\<lparr>NumShortTermRefPicSets := 2, ShortTermRefPicSets := [emptyRPS, emptyRPS]\<rparr>,
          False)"
proof -
  have a: "ReadExpGolomb (NewAccErrEBSPReader [0x00, 0x80, 0xF0]) =
     (\<lparr>buffer = [0x00, 0x80, 0xF0], bitOffset = 17, status = None\<rparr>, 256)"
    by code_simp
  have b: "parseShortTermRPS (NewAccErrEBSPReader [0x00, 0x80, 0xF0]) 0 1
     (emptySPS\<lparr>NumShortTermRefPicSets := 1\<rparr>) =
     Inr (\<lparr>buffer = [0x00, 0x80, 0xF0], bitOffset = 18, status = None\<rparr>, emptyRPS)"
    by code_simp
  have c: "shortTermRPSLoop (NewAccErrEBSPReader [0x00, 0x80, 0xD8]) 0
     (emptySPS\<lparr>NumShortTermRefPicSets := 2\<rparr>) =
     Inr (\<lparr>buffer = [0x00, 0x80, 0xD8], bitOffset = 21, status = None\<rparr>,
          emptySPS\<lparr>NumShortTermRefPicSets := 2, ShortTermRefPicSets := [emptyRPS, emptyRPS]\<rparr>,
          False)"
    by code_simp
  from a b c show ?thesis by simp
qed

lemma Read_no_too_many:
  "status r \<noteq> Some TooManyReferencePictures \<Longrightarrow>
   status (fst (Read r n)) \<noteq> Some TooManyReferencePictures"
  by (simp add: Read_def)

lemma ReadFlag_no_too_many:
  "status r \<noteq> Some TooManyReferencePictures \<Longrightarrow>
   status (fst (ReadFlag r)) \<noteq> Some TooManyReferencePictures"
  by (simp add: ReadFlag_def Let_def split_def Read_no_too_many)

lemma countLeadingZeroBits_no_too_many:
  "status r \<noteq> Some TooManyReferencePictures \<Longrightarrow>
   status (fst (countLeadingZeroBits r k)) \<noteq> Some TooManyReferencePictures"
proof (induction r k rule: countLeadingZeroBits.induct)
  case (1 r k)
  obtain r1 b where a: "Read r 1 = (r1, b)" by (cases "Read r 1")
  have s: "status r1 \<noteq> Some TooManyReferencePictures"
    using Read_no_too_many [OF "1.prems", of 1] a by simp
  show ?case
  proof (cases "status r1 = None \<and> b \<noteq> 1 \<and> \<not> maxLeadingZeroBits < k + 1")
    case True
    with "1.IH" [OF a [symmetric]] s a show ?thesis
      by (subst countLeadingZeroBits.simps) simp
  next
    case False
    with s a show ?thesis
      by (subst countLeadingZeroBits.simps) auto
  qed
qed

lemma ReadExpGolomb_no_too_many:
  "status r \<noteq> Some TooManyReferencePictures \<Longrightarrow>
   status (fst (ReadExpGolomb r)) \<noteq> Some TooManyReferencePictures"
  by (simp add: ReadExpGolomb_def Let_def split_def Read_no_too_many
      countLeadingZeroBits_no_too_many)

lemma readDeltaPocs_no_too_many:
  "status r \<noteq> Some TooManyReferencePictures \<Longrightarrow>
   status (fst (readDeltaPocs r i n deltaPoc used)) \<noteq> Some TooManyReferencePictures"
proof (induction r i n deltaPoc used rule: readDeltaPocs.induct)
  case (1 r i n deltaPoc used)
  show ?case
  proof (cases "i < n")
    case True
    obtain r1 v where a: "ReadExpGolomb r = (r1, v)" by (cases "ReadExpGolomb r")
    obtain r2 f where b: "ReadFlag r1 = (r2, f)" by (cases "ReadFlag r1")
    have "status r1 \<noteq> Some TooManyReferencePictures"
      using ReadExpGolomb_no_too_many [OF "1.prems"] a by simp
    then have "status r2 \<noteq> Some TooManyReferencePictures"
      using ReadFlag_no_too_many [of r1] b by simp
    from "1.IH" [OF True refl a [symmetric] refl refl b [symmetric] refl this] True a b
    show ?thesis by (subst readDeltaPocs.simps) simp
  next
    case False
    with "1.prems" show ?thesis by (subst readDeltaPocs.simps) simp
  qed
qed

lemma readInterRPSPredFlag_no_too_many:
  "status r \<noteq> Some TooManyReferencePictures \<Longrightarrow>
   status (fst (readInterRPSPredFlag r idx)) \<noteq> Some TooManyReferencePictures"
  by (simp add: readInterRPSPredFlag_def ReadFlag_no_too_many)

lemma readDeltaPocs_length:
  "length (fst (snd (readDeltaPocs r i n deltaPoc used))) = length deltaPoc \<and>
   length (snd (snd (readDeltaPocs r i n deltaPoc used))) = length used"
proof (induction r i n deltaPoc used rule: readDeltaPocs.induct)
  case (1 r i n deltaPoc used)
  show ?case
  proof (cases "i < n")
    case True
    obtain r1 v where a: "ReadExpGolomb r = (r1, v)" by (cases "ReadExpGolomb r")
    obtain r2 f where b: "ReadFlag r1 = (r2, f)" by (cases "ReadFlag r1")
    from "1.IH" [OF True refl a [symmetric] refl refl b [symmetric] refl] True a b
    show ?thesis by (subst (1 2) readDeltaPocs.simps) simp
  next
    case False
    then show ?thesis by (subst (1 2) readDeltaPocs.simps) simp
  qed
qed

lemma readDeltaPocs_values:
  "length deltaPoc = unat n \<Longrightarrow> i \<le> n \<Longrightarrow>
   fst (snd (readDeltaPocs r i n deltaPoc used)) =
     take (unat i) deltaPoc @ map (\<lambda>v. ucast (v + 1)) (rawDeltaCodes r i n)"
proof (induction r i n deltaPoc used rule: readDeltaPocs.induct)
  case (1 r i n deltaPoc used)
  show ?case
  proof (cases "i < n")
    case True
    obtain r1 v where a: "ReadExpGolomb r = (r1, v)" by (cases "ReadExpGolomb r")
    obtain r2 f where b: "ReadFlag r1 = (r2, f)" by (cases "ReadFlag r1")
    have k: "unat i < length deltaPoc"
      using True "1.prems" by (simp add: word_less_nat_alt)
    have ih: "fst (snd (readDeltaPocs r2 (i + 1) n (deltaPoc[unat i := ucast (v + 1)])
                 (used[unat i := f]))) =
       take (unat (i + 1)) (deltaPoc[unat i := ucast (v + 1)])
         @ map (\<lambda>v. ucast (v + 1)) (rawDeltaCodes r2 (i + 1) n)"
      using "1.IH" [OF True refl a [symmetric] refl refl b [symmetric] refl] "1.prems"
        word_counter_le [OF True] by simp
    have t: "take (unat (i + 1)) (deltaPoc[unat i := ucast (v + 1)]) =
        take (unat i) deltaPoc @ [ucast (v + 1)]"
      using k by (simp add: word_counter_suc [OF True] take_Suc_conv_app_nth)
    have l: "readDeltaPocs r i n deltaPoc used =
        readDeltaPocs r2 (i + 1) n (deltaPoc[unat i := ucast (v + 1)]) (used[unat i := f])"
      using True a b by (subst readDeltaPocs.simps) simp
    have rw: "rawDeltaCodes r i n = v # rawDeltaCodes r2 (i + 1) n"
      using True a b by (subst rawDeltaCodes.simps) simp
    show ?thesis by (simp add: l rw ih t)
  next
    case False
    with "1.prems" have "i = n" by simp
    then show ?thesis using "1.prems"
      by (subst readDeltaPocs.simps, subst rawDeltaCodes.simps) simp
  qed
qed

lemma unat_stored_delta: "unat (ucast (v + 1 :: uint) :: uint32) = (unat v + 1) mod 2 ^ 32"
proof -
  have "unat (ucast (v + 1 :: uint) :: uint32) = unat (v + 1) mod 2 ^ 32"
    by (simp add: unsigned_ucast_eq take_bit_eq_mod)
  also have "\<dots> = ((unat v + 1) mod 2 ^ 64) mod 2 ^ 32"
    by (simp add: unat_word_ariths)
  also have "\<dots> = (unat v + 1) mod 2 ^ 32"
    by (simp add: mod_mod_cancel)
  finally show ?thesis .
qed

lemma unat_count_sum:
  assumes "(a::byte) \<le> maxSTRefPics" and "b \<le> maxSTRefPics"
  shows "unat (a + b) = unat a + unat b"
proof -
  from assms have "unat a \<le> 16" and "unat b \<le> 16"
    by (simp_all add: maxSTRefPics_def word_le_nat_alt)
  then have "unat a + unat b < 2 ^ LENGTH(8)" by simp
  then show ?thesis by (rule unat_add_lem [THEN iffD1])
qed

text \<open>
  C10, as amended. For an entry decoded by the explicit branch with both counts at
  most 16, that is, one that passed the check of line 391: the decode latches no
  \<open>TooManyReferencePictures\<close> error of its own; \<open>DeltaPocS0\<close> and
  \<open>UsedByCurrPicS0\<close> have \<open>NumNegativePics\<close> elements, \<open>DeltaPocS1\<close> and
  \<open>UsedByCurrPicS1\<close> have \<open>NumPositivePics\<close> elements, \<open>NumDeltaPocs\<close> is the sum
  of the two counts, and every stored delta-POC is its raw Exp-Golomb value plus one,
  truncated to 32 bits as \<open>uint32(r.ReadExpGolomb() + 1)\<close> does: as numbers, raw
  value plus one modulo \<open>2 ^ 32\<close>.
\<close>

theorem parseShortTermRPS_explicit_entry:
  assumes "\<not> snd (readInterRPSPredFlag r idx)"
      and "parseShortTermRPS r idx n sps = Inr (r', e)"
      and "NumNegativePics e \<le> maxSTRefPics"
      and "NumPositivePics e \<le> maxSTRefPics"
  shows "(status r \<noteq> Some TooManyReferencePictures \<longrightarrow>
            AccError r' \<noteq> Some TooManyReferencePictures) \<and>
         length (DeltaPocS0 e) = unat (NumNegativePics e) \<and>
         length (UsedByCurrPicS0 e) = unat (NumNegativePics e) \<and>
         length (DeltaPocS1 e) = unat (NumPositivePics e) \<and>
         length (UsedByCurrPicS1 e) = unat (NumPositivePics e) \<and>
         NumDeltaPocs e = NumNegativePics e + NumPositivePics e \<and>
         unat (NumDeltaPocs e) = unat (NumNegativePics e) + unat (NumPositivePics e) \<and>
         (let r2 = fst (ReadExpGolomb (fst (ReadExpGolomb (fst (readInterRPSPredFlag r idx)))));
              raw0 = rawDeltaCodes r2 0 (NumNegativePics e);
              r3 = fst (readDeltaPocs r2 0 (NumNegativePics e)
                     (replicate (unat (NumNegativePics e)) 0)
                     (replicate (unat (NumNegativePics e)) False));
              raw1 = rawDeltaCodes r3 0 (NumPositivePics e)
          in DeltaPocS0 e = map (\<lambda>v. ucast (v + 1)) raw0 \<and>
             DeltaPocS1 e = map (\<lambda>v. ucast (v + 1)) raw1 \<and>
             map unat (DeltaPocS0 e) = map (\<lambda>v. (unat v + 1) mod 2 ^ 32) raw0 \<and>
             map unat (DeltaPocS1 e) = map (\<lambda>v. (unat v + 1) mod 2 ^ 32) raw1)"
proof -
  let ?r1 = "fst (readInterRPSPredFlag r idx)"
  let ?r2 = "fst (ReadExpGolomb (fst (ReadExpGolomb ?r1)))"
  let ?neg = "NumNegativePics e"
  let ?pos = "NumPositivePics e"
  let ?l0 = "readDeltaPocs ?r2 0 ?neg (replicate (unat ?neg) 0) (replicate (unat ?neg) False)"
  let ?l1 = "readDeltaPocs (fst ?l0) 0 ?pos (replicate (unat ?pos) 0) (replicate (unat ?pos) False)"
  from assms(1,2) have res: "parseExplicitRPS ?r1 emptyRPS = (r', e)"
    by (simp add: explicit_branch_result)
  with parseExplicitRPS_counts [of ?r1]
  have neg: "ucast (snd (ReadExpGolomb ?r1)) = ?neg"
    and pos: "ucast (snd (ReadExpGolomb (fst (ReadExpGolomb ?r1)))) = ?pos"
    by simp_all
  from assms(3,4) have le: "\<not> maxSTRefPics < ?neg" "\<not> maxSTRefPics < ?pos"
    by simp_all
  from res neg pos le have e: "e = emptyRPS\<lparr>NumNegativePics := ?neg, NumPositivePics := ?pos,
      NumDeltaPocs := ?neg + ?pos,
      DeltaPocS0 := fst (snd ?l0), UsedByCurrPicS0 := snd (snd ?l0),
      DeltaPocS1 := fst (snd ?l1), UsedByCurrPicS1 := snd (snd ?l1)\<rparr>"
    by (simp add: parseExplicitRPS_def Let_def split_def emptyRPS_def)
  from res neg pos le have r': "r' = fst ?l1"
    by (simp add: parseExplicitRPS_def Let_def split_def)
  have keep: "AccError r' \<noteq> Some TooManyReferencePictures"
    if "status r \<noteq> Some TooManyReferencePictures"
    unfolding r' AccError_def
    by (intro readDeltaPocs_no_too_many ReadExpGolomb_no_too_many
        readInterRPSPredFlag_no_too_many that)
  have s0: "DeltaPocS0 e = fst (snd ?l0)" and u0: "UsedByCurrPicS0 e = snd (snd ?l0)"
    and s1: "DeltaPocS1 e = fst (snd ?l1)" and u1: "UsedByCurrPicS1 e = snd (snd ?l1)"
    and nd: "NumDeltaPocs e = ?neg + ?pos"
    by (subst e, simp)+
  have len: "length (DeltaPocS0 e) = unat ?neg" "length (UsedByCurrPicS0 e) = unat ?neg"
    "length (DeltaPocS1 e) = unat ?pos" "length (UsedByCurrPicS1 e) = unat ?pos"
    by (simp_all add: s0 u0 s1 u1 readDeltaPocs_length)
  have v0: "DeltaPocS0 e = map (\<lambda>v. ucast (v + 1)) (rawDeltaCodes ?r2 0 ?neg)"
    by (simp add: s0 readDeltaPocs_values)
  have v1: "DeltaPocS1 e = map (\<lambda>v. ucast (v + 1)) (rawDeltaCodes (fst ?l0) 0 ?pos)"
    by (simp add: s1 readDeltaPocs_values)
  have m0: "map unat (DeltaPocS0 e) = map (\<lambda>v. (unat v + 1) mod 2 ^ 32) (rawDeltaCodes ?r2 0 ?neg)"
    by (subst v0) (simp add: unat_stored_delta comp_def)
  have m1: "map unat (DeltaPocS1 e) =
      map (\<lambda>v. (unat v + 1) mod 2 ^ 32) (rawDeltaCodes (fst ?l0) 0 ?pos)"
    by (subst v1) (simp add: unat_stored_delta comp_def)
  have sum: "unat (NumDeltaPocs e) = unat ?neg + unat ?pos"
    using unat_count_sum [OF assms(3,4)] nd by simp
  from keep len nd sum v0 v1 m0 m1 show ?thesis by (simp add: Let_def)
qed

theorem parseShortTermRPS_explicit_entry_witness:
  "parseShortTermRPS (NewAccErrEBSPReader [0x6B, 0x20, 0xD0]) 0 1
     (emptySPS\<lparr>NumShortTermRefPicSets := 1\<rparr>) =
     Inr (\<lparr>buffer = [0x6B, 0x20, 0xD0], bitOffset = 20, status = None\<rparr>,
          \<lparr>DeltaPocS0 = [1, 4], DeltaPocS1 = [6], UsedByCurrPicS0 = [True, False],
           UsedByCurrPicS1 = [True], NumNegativePics = 2, NumPositivePics = 1,
           NumDeltaPocs = 3\<rparr>) \<and>
   AccError \<lparr>buffer = [0x6B, 0x20, 0xD0], bitOffset = 20, status = None\<rparr>
     \<noteq> Some TooManyReferencePictures \<and>
   rawDeltaCodes \<lparr>buffer = [0x6B, 0x20, 0xD0], bitOffset = 6, status = None\<rparr> 0 2 = [0, 3] \<and>
   rawDeltaCodes \<lparr>buffer = [0x6B, 0x20, 0xD0], bitOffset = 14, status = None\<rparr> 0 1 = [5] \<and>
   map unat [1, 4 :: uint32] = map (\<lambda>v. (unat v + 1) mod 2 ^ 32) [0, 3 :: uint] \<and>
   map unat [6 :: uint32] = map (\<lambda>v. (unat v + 1) mod 2 ^ 32) [5 :: uint]"
proof -
  let ?r = "NewAccErrEBSPReader [0x6B, 0x20, 0xD0]"
  let ?s = "emptySPS\<lparr>NumShortTermRefPicSets := 1\<rparr>"
  let ?r' = "\<lparr>buffer = [0x6B, 0x20, 0xD0], bitOffset = 20, status = None\<rparr>"
  let ?e = "\<lparr>DeltaPocS0 = [1, 4], DeltaPocS1 = [6], UsedByCurrPicS0 = [True, False],
    UsedByCurrPicS1 = [True], NumNegativePics = 2, NumPositivePics = 1, NumDeltaPocs = 3\<rparr>"
  have h: "\<not> snd (readInterRPSPredFlag ?r 0)"
    by code_simp
  have p: "parseShortTermRPS ?r 0 1 ?s = Inr (?r', ?e)"
    by code_simp
  have n: "NumNegativePics ?e \<le> maxSTRefPics" and q: "NumPositivePics ?e \<le> maxSTRefPics"
    by (simp_all add: maxSTRefPics_def)
  have st: "status ?r \<noteq> Some TooManyReferencePictures"
    by (simp add: NewAccErrEBSPReader_def)
  have r2: "fst (ReadExpGolomb (fst (ReadExpGolomb (fst (readInterRPSPredFlag ?r 0))))) =
      \<lparr>buffer = [0x6B, 0x20, 0xD0], bitOffset = 6, status = None\<rparr>"
    by code_simp
  have r3: "fst (readDeltaPocs \<lparr>buffer = [0x6B, 0x20, 0xD0], bitOffset = 6, status = None\<rparr> 0 2
      (replicate 2 0) (replicate 2 False)) =
      \<lparr>buffer = [0x6B, 0x20, 0xD0], bitOffset = 14, status = None\<rparr>"
    by code_simp
  have c0: "rawDeltaCodes \<lparr>buffer = [0x6B, 0x20, 0xD0], bitOffset = 6, status = None\<rparr> 0 2 = [0, 3]"
    by code_simp
  have c1: "rawDeltaCodes \<lparr>buffer = [0x6B, 0x20, 0xD0], bitOffset = 14, status = None\<rparr> 0 1 = [5]"
    by code_simp
  from parseShortTermRPS_explicit_entry [OF h p n q] st p c0 c1
  show ?thesis by (simp add: r2 r3 Let_def)
qed

text \<open>
  C10 as stated fails in two places. Where the raw value plus one does not fit 32
  bits: the code of 32 zero bits, a one bit and 32 zero bits has the raw value
  \<open>2 ^ 32 - 1\<close>, and the delta-POC stored for it is 0. And where an entry leaves the
  explicit branch through the return of line 393 while the latched error is not
  \<open>TooManyReferencePictures\<close>: the bytes 09 00 hold a negative count of 17 and run
  out inside the positive count, the cursor keeps \<open>Truncated\<close>, and the entry has
  \<open>NumNegativePics = 17\<close> with an empty \<open>DeltaPocS0\<close>.
\<close>

theorem parseShortTermRPS_explicit_entry_counterexample:
  "parseShortTermRPS (NewAccErrEBSPReader [0x50, 0, 0, 0, 0x08, 0, 0, 0, 0x04]) 0 1
     (emptySPS\<lparr>NumShortTermRefPicSets := 1\<rparr>) =
     Inr (\<lparr>buffer = [0x50, 0, 0, 0, 0x08, 0, 0, 0, 0x04], bitOffset = 70, status = None\<rparr>,
          \<lparr>DeltaPocS0 = [0], DeltaPocS1 = [], UsedByCurrPicS0 = [True],
           UsedByCurrPicS1 = [], NumNegativePics = 1, NumPositivePics = 0,
           NumDeltaPocs = 1\<rparr>) \<and>
   \<not> snd (readInterRPSPredFlag (NewAccErrEBSPReader [0x50, 0, 0, 0, 0x08, 0, 0, 0, 0x04]) 0) \<and>
   rawDeltaCodes \<lparr>buffer = [0x50, 0, 0, 0, 0x08, 0, 0, 0, 0x04], bitOffset = 4, status = None\<rparr>
     0 1 = [4294967295] \<and>
   unat (0 :: uint32) \<noteq> unat (4294967295 :: uint) + 1 \<and>
   parseShortTermRPS (NewAccErrEBSPReader [0x09, 0x00]) 0 1
     (emptySPS\<lparr>NumShortTermRefPicSets := 1\<rparr>) =
     Inr (\<lparr>buffer = [0x09, 0x00], bitOffset = 16, status = Some Truncated\<rparr>,
          emptyRPS\<lparr>NumNegativePics := 17\<rparr>) \<and>
   \<not> snd (readInterRPSPredFlag (NewAccErrEBSPReader [0x09, 0x00]) 0) \<and>
   AccError \<lparr>buffer = [0x09, 0x00], bitOffset = 16, status = Some Truncated\<rparr>
     \<noteq> Some TooManyReferencePictures \<and>
   length (DeltaPocS0 (emptyRPS\<lparr>NumNegativePics := 17\<rparr>))
     \<noteq> unat (NumNegativePics (emptyRPS\<lparr>NumNegativePics := 17\<rparr>))"
proof -
  have a: "parseShortTermRPS (NewAccErrEBSPReader [0x50, 0, 0, 0, 0x08, 0, 0, 0, 0x04]) 0 1
     (emptySPS\<lparr>NumShortTermRefPicSets := 1\<rparr>) =
     Inr (\<lparr>buffer = [0x50, 0, 0, 0, 0x08, 0, 0, 0, 0x04], bitOffset = 70, status = None\<rparr>,
          \<lparr>DeltaPocS0 = [0], DeltaPocS1 = [], UsedByCurrPicS0 = [True],
           UsedByCurrPicS1 = [], NumNegativePics = 1, NumPositivePics = 0,
           NumDeltaPocs = 1\<rparr>)"
    by code_simp
  have b: "\<not> snd (readInterRPSPredFlag
      (NewAccErrEBSPReader [0x50, 0, 0, 0, 0x08, 0, 0, 0, 0x04]) 0)"
    by code_simp
  have c: "rawDeltaCodes
      \<lparr>buffer = [0x50, 0, 0, 0, 0x08, 0, 0, 0, 0x04], bitOffset = 4, status = None\<rparr> 0 1 =
      [4294967295]"
    by code_simp
  have d: "parseShortTermRPS (NewAccErrEBSPReader [0x09, 0x00]) 0 1
     (emptySPS\<lparr>NumShortTermRefPicSets := 1\<rparr>) =
     Inr (\<lparr>buffer = [0x09, 0x00], bitOffset = 16, status = Some Truncated\<rparr>,
          emptyRPS\<lparr>NumNegativePics := 17\<rparr>)"
    by code_simp
  have e: "\<not> snd (readInterRPSPredFlag (NewAccErrEBSPReader [0x09, 0x00]) 0)"
    by code_simp
  from a b c d e show ?thesis by (simp add: AccError_def emptyRPS_def)
qed

end
